theory Spec2Isabelle
  imports Main
begin

section \<open>Library values the handlers compute with\<close>

subsection \<open>Instants and durations (package time)\<close>

text \<open>
  A \<open>time.Time\<close> is modelled by the instant it denotes: nanoseconds since
  1970-01-01T00:00:00Z. The zone a parsed value carries only matters when the value is
  written as JSON; it is kept beside the instant where that happens, as the offset in
  seconds east of UTC. A \<open>time.Duration\<close> is a number of nanoseconds.
\<close>

type_synonym Time = int
type_synonym Duration = int

definition Millisecond :: Duration where
  "Millisecond = 1000000"

definition Second :: Duration where
  "Second = 1000000000"

definition Minute :: Duration where
  "Minute = 60 * Second"

definition Hour :: Duration where
  "Hour = 60 * Minute"

text \<open>\<open>t.Add(d)\<close>.\<close>

definition Add :: "Time \<Rightarrow> Duration \<Rightarrow> Time" where
  "Add t d = t + d"

text \<open>
  The driver writes a \<open>time.Time\<close> as a BSON datetime, whole milliseconds since the
  epoch (\<open>t.Unix()*1e3 + t.Nanosecond()/1e6\<close>), and reads it back as such: what the
  store holds and compares is the instant rounded down to the millisecond.
\<close>

definition bson_DateTime :: "Time \<Rightarrow> Time" where
  "bson_DateTime t = (t div Millisecond) * Millisecond"

definition digit :: "char \<Rightarrow> nat option" where
  "digit c = map_of
     [(CHR ''0'', 0), (CHR ''1'', 1), (CHR ''2'', 2), (CHR ''3'', 3), (CHR ''4'', 4),
      (CHR ''5'', 5), (CHR ''6'', 6), (CHR ''7'', 7), (CHR ''8'', 8), (CHR ''9'', 9)] c"

text \<open>
  \<open>getnum(s, fixed)\<close> of package time: one or two leading digits, two when
  \<open>fixed\<close>, and the rest of the string.
\<close>

definition getnum :: "string \<Rightarrow> bool \<Rightarrow> (nat \<times> string) option" where
  "getnum s fixed =
     (case s of
        [] \<Rightarrow> None
      | c # r \<Rightarrow>
          (case digit c of
             None \<Rightarrow> None
           | Some d \<Rightarrow>
               (case r of
                  [] \<Rightarrow> if fixed then None else Some (d, r)
                | c2 # r2 \<Rightarrow>
                    (case digit c2 of
                       None \<Rightarrow> if fixed then None else Some (d, r)
                     | Some d2 \<Rightarrow> Some (d * 10 + d2, r2)))))"

text \<open>The layout element \<open>2006\<close>: exactly four digits.\<close>

definition getyear :: "string \<Rightarrow> (nat \<times> string) option" where
  "getyear s =
     (case getnum s True of
        None \<Rightarrow> None
      | Some (hi, r) \<Rightarrow>
          (case getnum r True of
             None \<Rightarrow> None
           | Some (lo, r2) \<Rightarrow> Some (hi * 100 + lo, r2)))"

text \<open>\<open>skip(value, prefix)\<close> for a one-character literal of the layout.\<close>

definition skip :: "string \<Rightarrow> char \<Rightarrow> string option" where
  "skip s p = (case s of [] \<Rightarrow> None | c # r \<Rightarrow> if c = p then Some r else None)"

definition isLeap :: "nat \<Rightarrow> bool" where
  "isLeap y = (y mod 4 = 0 \<and> (y mod 400 = 0 \<or> y mod 100 \<noteq> 0))"

definition daysIn :: "nat \<Rightarrow> nat \<Rightarrow> nat" where
  "daysIn m y =
     (if m = 2 then (if isLeap y then 29 else 28)
      else if m = 4 \<or> m = 6 \<or> m = 9 \<or> m = 11 then 30
      else 31)"

text \<open>
  Days from 1970-01-01 to the civil date \<open>y-m-d\<close> of the proleptic Gregorian
  calendar, which is what \<open>time.Date\<close> counts.
\<close>

definition daysSinceEpoch :: "nat \<Rightarrow> nat \<Rightarrow> nat \<Rightarrow> int" where
  "daysSinceEpoch y m d =
     (let y' = (if m \<le> 2 then int y - 1 else int y);
          era = y' div 400;
          yoe = y' - era * 400;
          mp = (if m > 2 then int m - 3 else int m + 9);
          doy = (153 * mp + 2) div 5 + int d - 1;
          doe = yoe * 365 + yoe div 4 - yoe div 100 + doy
      in era * 146097 + doe - 719468)"

text \<open>\<open>time.Date(y, m, d, h, mi, s, ns, time.UTC)\<close> for fields in range.\<close>

definition Date :: "nat \<Rightarrow> nat \<Rightarrow> nat \<Rightarrow> nat \<Rightarrow> nat \<Rightarrow> nat \<Rightarrow> int \<Rightarrow> Time" where
  "Date y m d h mi s ns =
     ((daysSinceEpoch y m d * 24 + int h) * 60 + int mi) * 60 * Second
       + int s * Second + ns"

text \<open>
  The year, month and day of both layouts, \<open>2006-01-02\<close>: the month is checked on
  the spot, the day against the month once the whole value is read, so the day's range
  is left to the callers below.
\<close>

definition parse_ymd :: "string \<Rightarrow> (nat \<times> nat \<times> nat \<times> string) option" where
  "parse_ymd s =
     (case getyear s of
        None \<Rightarrow> None
      | Some (y, s1) \<Rightarrow>
     (case skip s1 (CHR ''-'') of
        None \<Rightarrow> None
      | Some s2 \<Rightarrow>
     (case getnum s2 True of
        None \<Rightarrow> None
      | Some (m, s3) \<Rightarrow>
          if m = 0 \<or> 12 < m then None
          else
     (case skip s3 (CHR ''-'') of
        None \<Rightarrow> None
      | Some s4 \<Rightarrow>
     (case getnum s4 True of
        None \<Rightarrow> None
      | Some (d, s5) \<Rightarrow> Some (y, m, d, s5))))))"

text \<open>\<open>time.Parse("2006-01-02", s)\<close>: midnight UTC of the day, or an error.\<close>

definition parse_date :: "string \<Rightarrow> Time option" where
  "parse_date s =
     (case parse_ymd s of
        None \<Rightarrow> None
      | Some (y, m, d, rest) \<Rightarrow>
          if rest \<noteq> [] then None
          else if d < 1 \<or> daysIn m y < d then None
          else Some (Date y m d 0 0 0 0))"

text \<open>
  A fractional second in the input where the layout has none: a period or a comma, then
  digits, of which the first nine count. \<open>take_digits\<close> splits the leading digits
  off.
\<close>

fun take_digits :: "string \<Rightarrow> nat list \<times> string" where
  "take_digits [] = ([], [])"
| "take_digits (c # r) =
     (case digit c of
        None \<Rightarrow> ([], c # r)
      | Some d \<Rightarrow> (let (ds, rest) = take_digits r in (d # ds, rest)))"

definition parse_fraction :: "string \<Rightarrow> int \<times> string" where
  "parse_fraction s =
     (case s of
        c # c2 # r \<Rightarrow>
          if (c = CHR ''.'' \<or> c = CHR '','') \<and> digit c2 \<noteq> None then
            (let (ds, rest) = take_digits (c2 # r);
                 ds9 = take 9 ds
             in (foldl (\<lambda>n d. n * 10 + int d) 0 ds9 * 10 ^ (9 - length ds9), rest))
          else (0, s)
      | _ \<Rightarrow> (0, s))"

text \<open>
  The layout element \<open>Z07:00\<close>: \<open>Z\<close>, or a sign, two digits, a colon and two
  digits, the hours at most 24 and the minutes at most 60 (the range test of Go 1.20
  and later); the offset in seconds east of UTC.
\<close>

definition parse_zone :: "string \<Rightarrow> (int \<times> string) option" where
  "parse_zone s =
     (case s of
        [] \<Rightarrow> None
      | c # r \<Rightarrow>
          if c = CHR ''Z'' then Some (0, r)
          else if length s < 6 then None
          else if s ! 3 \<noteq> CHR '':'' then None
          else
            (case getnum (take 2 r) True of
               None \<Rightarrow> None
             | Some (hr, _) \<Rightarrow>
                 (case getnum (take 2 (drop 3 r)) True of
                    None \<Rightarrow> None
                  | Some (mm, _) \<Rightarrow>
                      if 24 < hr \<or> 60 < mm then None
                      else if c = CHR ''+'' then Some ((int hr * 60 + int mm) * 60, drop 6 s)
                      else if c = CHR ''-'' then Some (- ((int hr * 60 + int mm) * 60), drop 6 s)
                      else None)))"

text \<open>
  \<open>time.Parse(time.RFC3339, s)\<close>, layout \<open>2006-01-02T15:04:05Z07:00\<close>: the hour
  may have one digit, a fractional second is accepted, and nothing may follow the zone.
  The result is the instant (the civil time read as UTC, less the offset) and the
  offset of the zone the value carries.
\<close>

definition parse_RFC3339_zone :: "string \<Rightarrow> (Time \<times> int) option" where
  "parse_RFC3339_zone s =
     (case parse_ymd s of
        None \<Rightarrow> None
      | Some (y, m, d, s1) \<Rightarrow>
     (case skip s1 (CHR ''T'') of
        None \<Rightarrow> None
      | Some s2 \<Rightarrow>
     (case getnum s2 False of
        None \<Rightarrow> None
      | Some (h, s3) \<Rightarrow>
          if 24 \<le> h then None
          else
     (case skip s3 (CHR '':'') of
        None \<Rightarrow> None
      | Some s4 \<Rightarrow>
     (case getnum s4 True of
        None \<Rightarrow> None
      | Some (mi, s5) \<Rightarrow>
          if 60 \<le> mi then None
          else
     (case skip s5 (CHR '':'') of
        None \<Rightarrow> None
      | Some s6 \<Rightarrow>
     (case getnum s6 True of
        None \<Rightarrow> None
      | Some (sec, s7) \<Rightarrow>
          if 60 \<le> sec then None
          else
            (let (ns, s8) = parse_fraction s7 in
     (case parse_zone s8 of
        None \<Rightarrow> None
      | Some (off, rest) \<Rightarrow>
          if rest \<noteq> [] then None
          else if d < 1 \<or> daysIn m y < d then None
          else Some (Date y m d h mi sec ns - off * Second, off))))))))))"

text \<open>The instant alone, where the zone is not read again.\<close>

definition parse_RFC3339 :: "string \<Rightarrow> Time option" where
  "parse_RFC3339 s = map_option fst (parse_RFC3339_zone s)"

text \<open>
  \<open>t.MarshalJSON()\<close> (Go 1.20 and later), which \<open>c.JSON\<close> calls for every time
  it writes: an error when the year of the time in its own zone is outside 0 to 9999,
  or when the hours of its zone offset are 24 or more. The year of a time is in that
  range exactly when its civil time lies from 0000-01-01T00:00:00 up to, not including,
  10000-01-01T00:00:00. \<open>off\<close> is the zone offset in seconds east of UTC.
\<close>

definition MarshalJSON_ok :: "Time \<Rightarrow> int \<Rightarrow> bool" where
  "MarshalJSON_ok t off =
     (Date 0 1 1 0 0 0 0 \<le> t + off * Second
      \<and> t + off * Second < Date 10000 1 1 0 0 0 0
      \<and> (\<bar>off\<bar> div 60) div 60 < 24)"

subsection \<open>Object identifiers (package primitive)\<close>

text \<open>
  A \<open>primitive.ObjectID\<close> is twelve bytes; the model holds them as the number they
  spell, most significant byte first. \<open>NilObjectID\<close> is the zero value.
\<close>

type_synonym ObjectID = nat

definition NilObjectID :: ObjectID where
  "NilObjectID = 0"

definition hexval :: "char \<Rightarrow> nat option" where
  "hexval c = map_of
     [(CHR ''0'', 0), (CHR ''1'', 1), (CHR ''2'', 2), (CHR ''3'', 3), (CHR ''4'', 4),
      (CHR ''5'', 5), (CHR ''6'', 6), (CHR ''7'', 7), (CHR ''8'', 8), (CHR ''9'', 9),
      (CHR ''a'', 10), (CHR ''b'', 11), (CHR ''c'', 12), (CHR ''d'', 13), (CHR ''e'', 14),
      (CHR ''f'', 15),
      (CHR ''A'', 10), (CHR ''B'', 11), (CHR ''C'', 12), (CHR ''D'', 13), (CHR ''E'', 14),
      (CHR ''F'', 15)] c"

fun hex_Decode :: "string \<Rightarrow> nat \<Rightarrow> nat option" where
  "hex_Decode [] acc = Some acc"
| "hex_Decode (c # r) acc =
     (case hexval c of None \<Rightarrow> None | Some v \<Rightarrow> hex_Decode r (acc * 16 + v))"

text \<open>
  \<open>primitive.ObjectIDFromHex(s)\<close>: 24 hexadecimal digits of either case, or an error
  (\<open>None\<close>), with which the Go function returns \<open>NilObjectID\<close>.
\<close>

definition ObjectIDFromHex :: "string \<Rightarrow> ObjectID option" where
  "ObjectIDFromHex s = (if length s \<noteq> 24 then None else hex_Decode s 0)"

definition hexchar :: "nat \<Rightarrow> char" where
  "hexchar v = ''0123456789abcdef'' ! (v mod 16)"

text \<open>\<open>id.Hex()\<close>: the 24 lower-case digits.\<close>

fun hex_Encode :: "nat \<Rightarrow> nat \<Rightarrow> string" where
  "hex_Encode 0 v = []"
| "hex_Encode (Suc n) v = hex_Encode n (v div 16) @ [hexchar v]"

definition Hex :: "ObjectID \<Rightarrow> string" where
  "Hex oid = hex_Encode 24 oid"

section \<open>The data model (package models)\<close>

record Appointment =
  ID :: ObjectID
  PatientID :: ObjectID
  PatientName :: string
  StartTime :: Time
  EndTime :: Time
  Service :: string
  Status :: string

text \<open>
  The fields of \<open>models.User\<close>; its \<open>ID\<close> is \<open>User_ID\<close> here, the name
  \<open>ID\<close> being the appointment's.
\<close>

record User =
  User_ID :: ObjectID
  FullName :: string
  Email :: string
  Password :: string
  Role :: string
  Phone :: string

text \<open>
  What \<open>c.JSON\<close> writes for a user: the tag \<open>json:"-"\<close> keeps the password out.
\<close>

record UserJSON =
  json_id :: ObjectID
  json_fullName :: string
  json_email :: string
  json_role :: string
  json_phone :: string

definition json_User :: "User \<Rightarrow> UserJSON" where
  "json_User u =
     \<lparr>json_id = User_ID u, json_fullName = FullName u, json_email = Email u,
      json_role = Role u, json_phone = Phone u\<rparr>"

section \<open>The document store\<close>

text \<open>
  The handlers reach MongoDB through \<open>h.DB\<close>. The model keeps the two collections
  as lists in the store's natural order, the operations issued so far, and which
  operations the store fails to answer (a lost connection, a driver error): operation
  number \<open>n\<close>, counted from 0 over the life of the store, fails when \<open>n\<close> is in
  \<open>faults\<close>. \<open>email_unique\<close> says whether the users collection has a unique index
  on \<open>email\<close>; the deployment creates it, no code of the repository does.
\<close>

datatype db_call =
  FindOne string | Find string | CursorAll | InsertOne string | UpdateOne string

datatype db_error = DuplicateKey | StoreFailure

record Database =
  appointments :: "Appointment list"
  users :: "User list"
  email_unique :: bool
  calls :: "db_call list"
  faults :: "nat list"

definition answered :: "Database \<Rightarrow> bool" where
  "answered db = (length (calls db) \<notin> set (faults db))"

definition issue :: "db_call \<Rightarrow> Database \<Rightarrow> Database" where
  "issue c db = db\<lparr>calls := calls db @ [c]\<rparr>"

text \<open>The store answers its next \<open>n\<close> operations.\<close>

definition answers_next :: "nat \<Rightarrow> Database \<Rightarrow> bool" where
  "answers_next n db = list_all (\<lambda>i. length (calls db) + i \<notin> set (faults db)) [0..<n]"

text \<open>
  \<open>Collection("users").FindOne(ctx, bson.M{"_id": id}).Decode(&u)\<close>: the first user
  with that identifier; \<open>None\<close> is any error, no document or no answer.
\<close>

definition users_FindOne_id :: "Database \<Rightarrow> ObjectID \<Rightarrow> User option \<times> Database" where
  "users_FindOne_id db oid =
     (if answered db then find (\<lambda>u. User_ID u = oid) (users db) else None,
      issue (FindOne ''users'') db)"

definition users_FindOne_email :: "Database \<Rightarrow> string \<Rightarrow> User option \<times> Database" where
  "users_FindOne_email db e =
     (if answered db then find (\<lambda>u. Email u = e) (users db) else None,
      issue (FindOne ''users'') db)"

definition appointments_FindOne_id ::
  "Database \<Rightarrow> ObjectID \<Rightarrow> Appointment option \<times> Database" where
  "appointments_FindOne_id db oid =
     (if answered db then find (\<lambda>a. ID a = oid) (appointments db) else None,
      issue (FindOne ''appointments'') db)"

text \<open>What the store keeps of an appointment: its times as BSON datetimes.\<close>

definition bson_Appointment :: "Appointment \<Rightarrow> Appointment" where
  "bson_Appointment a =
     a\<lparr>StartTime := bson_DateTime (StartTime a), EndTime := bson_DateTime (EndTime a)\<rparr>"

text \<open>
  \<open>InsertOne\<close>: the document goes to the end of the collection, unless the store does
  not answer or a unique index refuses it (\<open>_id\<close> always, \<open>email\<close> when the
  index exists).
\<close>

definition appointments_InsertOne ::
  "Database \<Rightarrow> Appointment \<Rightarrow> db_error option \<times> Database" where
  "appointments_InsertOne db a =
     (if \<not> answered db then (Some StoreFailure, issue (InsertOne ''appointments'') db)
      else if list_ex (\<lambda>b. ID b = ID a) (appointments db)
        then (Some DuplicateKey, issue (InsertOne ''appointments'') db)
      else (None,
        issue (InsertOne ''appointments'')
          (db\<lparr>appointments := appointments db @ [bson_Appointment a]\<rparr>)))"

definition users_InsertOne :: "Database \<Rightarrow> User \<Rightarrow> db_error option \<times> Database" where
  "users_InsertOne db u =
     (if \<not> answered db then (Some StoreFailure, issue (InsertOne ''users'') db)
      else if list_ex (\<lambda>v. User_ID v = User_ID u) (users db)
        then (Some DuplicateKey, issue (InsertOne ''users'') db)
      else if email_unique db \<and> list_ex (\<lambda>v. Email v = Email u) (users db)
        then (Some DuplicateKey, issue (InsertOne ''users'') db)
      else (None, issue (InsertOne ''users'') (db\<lparr>users := users db @ [u]\<rparr>)))"

text \<open>
  The \<open>$set\<close> document of an update, \<open>updateFields\<close>: a key is present when its
  field is \<open>Some\<close>.
\<close>

record UpdateFields =
  set_startTime :: "Time option"
  set_endTime :: "Time option"
  set_service :: "string option"
  set_status :: "string option"

definition len :: "UpdateFields \<Rightarrow> nat" where
  "len u =
     (if set_startTime u = None then 0 else 1) + (if set_endTime u = None then 0 else 1)
       + (if set_service u = None then 0 else 1) + (if set_status u = None then 0 else 1)"

definition apply_set :: "UpdateFields \<Rightarrow> Appointment \<Rightarrow> Appointment" where
  "apply_set u a =
     a\<lparr>StartTime := (case set_startTime u of None \<Rightarrow> StartTime a | Some t \<Rightarrow> bson_DateTime t),
       EndTime := (case set_endTime u of None \<Rightarrow> EndTime a | Some t \<Rightarrow> bson_DateTime t),
       Service := (case set_service u of None \<Rightarrow> Service a | Some s \<Rightarrow> s),
       Status := (case set_status u of None \<Rightarrow> Status a | Some s \<Rightarrow> s)\<rparr>"

fun update_first :: "('a \<Rightarrow> bool) \<Rightarrow> ('a \<Rightarrow> 'a) \<Rightarrow> 'a list \<Rightarrow> 'a list" where
  "update_first p f [] = []"
| "update_first p f (x # xs) = (if p x then f x # xs else x # update_first p f xs)"

text \<open>
  \<open>UpdateOne(ctx, bson.M{"_id": id}, bson.M{"$set": fields})\<close>: the first document
  with that identifier is updated; that none matches is no error. The result is whether
  the store answered (\<open>err == nil\<close>).
\<close>

definition appointments_UpdateOne ::
  "Database \<Rightarrow> ObjectID \<Rightarrow> UpdateFields \<Rightarrow> bool \<times> Database" where
  "appointments_UpdateOne db oid u =
     (if \<not> answered db then (False, issue (UpdateOne ''appointments'') db)
      else (True,
        issue (UpdateOne ''appointments'')
          (db\<lparr>appointments := update_first (\<lambda>a. ID a = oid) (apply_set u) (appointments db)\<rparr>)))"

text \<open>
  The query filter the list handlers build, a \<open>bson.M\<close> with the keys
  \<open>patientId\<close>, \<open>startTime\<close> (a document with \<open>$gte\<close> and \<open>$lte\<close>) and
  \<open>status\<close>; a key is present when its field is \<open>Some\<close>.
\<close>

record TimeRange =
  gte :: "Time option"
  lte :: "Time option"

record Filter =
  f_patientId :: "ObjectID option"
  f_startTime :: "TimeRange option"
  f_status :: "string option"

definition empty_filter :: Filter where
  "empty_filter = \<lparr>f_patientId = None, f_startTime = None, f_status = None\<rparr>"

definition in_range :: "TimeRange \<Rightarrow> Time \<Rightarrow> bool" where
  "in_range r t =
     ((case gte r of None \<Rightarrow> True | Some lo \<Rightarrow> bson_DateTime lo \<le> t)
      \<and> (case lte r of None \<Rightarrow> True | Some hi \<Rightarrow> t \<le> bson_DateTime hi))"

definition matches :: "Filter \<Rightarrow> Appointment \<Rightarrow> bool" where
  "matches f a =
     ((case f_patientId f of None \<Rightarrow> True | Some p \<Rightarrow> PatientID a = p)
      \<and> (case f_startTime f of None \<Rightarrow> True | Some r \<Rightarrow> in_range r (StartTime a))
      \<and> (case f_status f of None \<Rightarrow> True | Some s \<Rightarrow> Status a = s))"

datatype sort_order = Ascending | Descending

text \<open>
  \<open>Find(ctx, filter, options.Find().SetSort(bson.D{{"startTime", 1 or -1}}))\<close>: the
  matching documents by start time. The store leaves the order of equal start times
  open; the model keeps their natural order (reversed when descending).
\<close>

definition appointments_Find ::
  "Database \<Rightarrow> Filter \<Rightarrow> sort_order \<Rightarrow> Appointment list option \<times> Database" where
  "appointments_Find db f ord =
     (if \<not> answered db then (None, issue (Find ''appointments'') db)
      else
        (Some (case ord of
                 Ascending \<Rightarrow> sort_key StartTime (filter (matches f) (appointments db))
               | Descending \<Rightarrow> rev (sort_key StartTime (filter (matches f) (appointments db)))),
         issue (Find ''appointments'') db))"

text \<open>
  \<open>cursor.All(ctx, &appointments)\<close> into a slice declared \<open>var appointments
  []models.Appointment\<close>. The outer \<open>None\<close> is an error. A Go slice is \<open>None\<close>
  when nil and \<open>Some xs\<close> otherwise: a cursor without documents appends nothing and
  leaves the nil slice nil, which is what the handler \<open>GetAppointment\<close> checks for
  (\<open>if appointments == nil\<close>).
\<close>

definition cursor_All ::
  "Database \<Rightarrow> Appointment list \<Rightarrow> Appointment list option option \<times> Database" where
  "cursor_All db docs =
     (if \<not> answered db then (None, issue CursorAll db)
      else (Some (if docs = [] then None else Some docs), issue CursorAll db))"

section \<open>Requests and responses (gin)\<close>

text \<open>
  What a handler reads of its \<open>*gin.Context\<close>: the two values the authentication
  middleware sets from the token's claims (\<open>c.Get("userID")\<close>,
  \<open>c.Get("userRole")\<close>), the path parameters and the query string. The JSON body is
  an argument of its own, below.
\<close>

record Context =
  userID :: string
  userRole :: string
  params :: "(string \<times> string) list"
  query :: "(string \<times> string) list"

text \<open>\<open>c.Param(k)\<close> and \<open>c.Query(k)\<close>: the first value, the empty string when absent.\<close>

definition Param :: "Context \<Rightarrow> string \<Rightarrow> string" where
  "Param c k = (case map_of (params c) k of None \<Rightarrow> [] | Some v \<Rightarrow> v)"

definition Query :: "Context \<Rightarrow> string \<Rightarrow> string" where
  "Query c k = (case map_of (query c) k of None \<Rightarrow> [] | Some v \<Rightarrow> v)"

text \<open>
  The JSON a handler answers with: \<open>gin.H{"error": msg}\<close>, the same with the text of
  a binding error (which the binding library words), \<open>gin.H{"message": msg}\<close>, an
  appointment, a slice of appointments (JSON \<open>null\<close> for the nil slice, \<open>None\<close>),
  a user, and \<open>gin.H{"token": t, "user": u}\<close>. \<open>NoBody\<close> is the answer of a
  \<open>c.JSON\<close> whose value does not marshal: the status is sent and nothing after it.
\<close>

datatype Body =
  ErrorBody string
| BindErrorBody
| MessageBody string
| AppointmentBody Appointment
| AppointmentsBody "Appointment list option"
| UserBody UserJSON
| TokenBody string UserJSON
| NoBody

datatype Response = Response (code: nat) (body: Body)

abbreviation StatusOK :: nat where "StatusOK \<equiv> 200"
abbreviation StatusCreated :: nat where "StatusCreated \<equiv> 201"
abbreviation StatusBadRequest :: nat where "StatusBadRequest \<equiv> 400"
abbreviation StatusUnauthorized :: nat where "StatusUnauthorized \<equiv> 401"
abbreviation StatusForbidden :: nat where "StatusForbidden \<equiv> 403"
abbreviation StatusNotFound :: nat where "StatusNotFound \<equiv> 404"
abbreviation StatusConflict :: nat where "StatusConflict \<equiv> 409"
abbreviation StatusInternalServerError :: nat where "StatusInternalServerError \<equiv> 500"

text \<open>
  \<open>c.JSON(code, v)\<close> for the two values that hold times. An appointment built in the
  handler carries the times as parsed, each with its zone; appointments decoded from
  the store carry theirs in UTC. Every other value the handlers write is made of
  strings and identifiers and marshals always.
\<close>

definition JSON_Appointment :: "nat \<Rightarrow> Appointment \<Rightarrow> int \<Rightarrow> int \<Rightarrow> Response" where
  "JSON_Appointment status apt startZone endZone =
     (if MarshalJSON_ok (StartTime apt) startZone \<and> MarshalJSON_ok (EndTime apt) endZone
      then Response status (AppointmentBody apt)
      else Response status NoBody)"

definition marshals_UTC :: "Appointment \<Rightarrow> bool" where
  "marshals_UTC a = (MarshalJSON_ok (StartTime a) 0 \<and> MarshalJSON_ok (EndTime a) 0)"

definition JSON_Appointments :: "nat \<Rightarrow> Appointment list option \<Rightarrow> Response" where
  "JSON_Appointments status slice =
     (case slice of
        None \<Rightarrow> Response status (AppointmentsBody None)
      | Some xs \<Rightarrow>
          if list_all marshals_UTC xs then Response status (AppointmentsBody (Some xs))
          else Response status NoBody)"

section \<open>The notification service\<close>

text \<open>
  \<open>SendAppointmentConfirmationSMS\<close> starts a goroutine that posts the message and
  only logs what happens to it. The model records the dispatch: the phone number and
  the three values the message text is formatted from.
\<close>

record SMS =
  sms_phone :: string
  sms_service :: string
  sms_name :: string
  sms_start :: Time

record Handler =
  DB :: Database
  dispatched :: "SMS list"

definition SendAppointmentConfirmationSMS :: "Handler \<Rightarrow> User \<Rightarrow> Appointment \<Rightarrow> Handler" where
  "SendAppointmentConfirmationSMS h patient apt =
     (if Phone patient = [] then h
      else h\<lparr>dispatched := dispatched h @
             [\<lparr>sms_phone = Phone patient, sms_service = Service apt,
               sms_name = FullName patient, sms_start = StartTime apt\<rparr>]\<rparr>)"

section \<open>The appointment handlers (internal/handlers/handler.go)\<close>

text \<open>
  Every handler takes the handler's state and the request and returns the response and
  the state after it. A JSON body is \<open>None\<close> when \<open>c.ShouldBindJSON\<close> fails to
  decode it.
\<close>

record CreateRequest =
  req_StartTime :: string
  req_EndTime :: string
  req_Service :: string

text \<open>\<open>newID\<close> is what \<open>primitive.NewObjectID()\<close> returns in this call.\<close>

definition CreateAppointment ::
  "Handler \<Rightarrow> Context \<Rightarrow> ObjectID \<Rightarrow> CreateRequest option \<Rightarrow> Response \<times> Handler" where
  "CreateAppointment h c newID json =
     (case json of
        None \<Rightarrow> (Response StatusBadRequest (ErrorBody ''Invalid request body''), h)
      | Some req \<Rightarrow>
     (case parse_RFC3339_zone (req_StartTime req) of
        None \<Rightarrow> (Response StatusBadRequest (ErrorBody ''Invalid time format, use RFC3339''), h)
      | Some (startTime, startZone) \<Rightarrow>
     (case parse_RFC3339_zone (req_EndTime req) of
        None \<Rightarrow> (Response StatusBadRequest (ErrorBody ''Invalid time format, use RFC3339''), h)
      | Some (endTime, endZone) \<Rightarrow>
          if userRole c \<noteq> ''client'' then
            (Response StatusForbidden (ErrorBody ''Only clients can book appointments.''), h)
          else
            (let patientID =
                   (case ObjectIDFromHex (userID c) of None \<Rightarrow> NilObjectID | Some i \<Rightarrow> i);
                 (found, db1) = users_FindOne_id (DB h) patientID
             in case found of
                  None \<Rightarrow>
                    (Response StatusInternalServerError (ErrorBody ''Could not find user details''),
                     h\<lparr>DB := db1\<rparr>)
                | Some patient \<Rightarrow>
                    (let apt = \<lparr>ID = newID, PatientID = patientID,
                                PatientName = FullName patient, StartTime = startTime,
                                EndTime = endTime, Service = req_Service req,
                                Status = ''Scheduled''\<rparr>;
                         (err, db2) = appointments_InsertOne db1 apt
                     in case err of
                          Some e \<Rightarrow>
                            (Response StatusInternalServerError
                               (ErrorBody ''Failed to create appointment''),
                             h\<lparr>DB := db2\<rparr>)
                        | None \<Rightarrow>
                            (JSON_Appointment StatusCreated apt startZone endZone,
                             SendAppointmentConfirmationSMS (h\<lparr>DB := db2\<rparr>) patient apt))))))"

text \<open>
  The three filter steps both list handlers run, in this order: \<open>startDate\<close>,
  \<open>endDate\<close>, \<open>status\<close>. A date that does not parse is ignored.
\<close>

definition filter_startDate :: "Context \<Rightarrow> Filter \<Rightarrow> Filter" where
  "filter_startDate c f =
     (if Query c ''startDate'' \<noteq> [] then
        (case parse_date (Query c ''startDate'') of
           None \<Rightarrow> f
         | Some startDate \<Rightarrow> f\<lparr>f_startTime := Some \<lparr>gte = Some startDate, lte = None\<rparr>\<rparr>)
      else f)"

definition filter_endDate :: "Context \<Rightarrow> Filter \<Rightarrow> Filter" where
  "filter_endDate c f =
     (if Query c ''endDate'' \<noteq> [] then
        (case parse_date (Query c ''endDate'') of
           None \<Rightarrow> f
         | Some parsed \<Rightarrow>
             (let endDate = Add parsed (23 * Hour + 59 * Minute)
              in case f_startTime f of
                   Some r \<Rightarrow> f\<lparr>f_startTime := Some (r\<lparr>lte := Some endDate\<rparr>)\<rparr>
                 | None \<Rightarrow> f\<lparr>f_startTime := Some \<lparr>gte = None, lte = Some endDate\<rparr>\<rparr>))
      else f)"

definition filter_status :: "Context \<Rightarrow> Filter \<Rightarrow> Filter" where
  "filter_status c f =
     (if Query c ''status'' \<noteq> [] then f\<lparr>f_status := Some (Query c ''status'')\<rparr> else f)"

text \<open>The two steps after the filter is built: \<open>Find\<close>, then \<open>cursor.All\<close>.\<close>

definition GetAppointments :: "Handler \<Rightarrow> Context \<Rightarrow> Response \<times> Handler" where
  "GetAppointments h c =
     (let filter = filter_status c (filter_endDate c (filter_startDate c empty_filter));
          (cursor, db1) = appointments_Find (DB h) filter Ascending
      in case cursor of
           None \<Rightarrow>
             (Response StatusInternalServerError (ErrorBody ''Failed to retrieve appointments''),
              h\<lparr>DB := db1\<rparr>)
         | Some docs \<Rightarrow>
             (let (res, db2) = cursor_All db1 docs
              in case res of
                   None \<Rightarrow>
                     (Response StatusInternalServerError
                        (ErrorBody ''Failed to decode appointments''),
                      h\<lparr>DB := db2\<rparr>)
                 | Some slice \<Rightarrow>
                     (JSON_Appointments StatusOK slice, h\<lparr>DB := db2\<rparr>)))"

definition filter_patientId_query :: "Context \<Rightarrow> Filter \<Rightarrow> Filter" where
  "filter_patientId_query c f =
     (if userRole c \<noteq> ''client'' then
        (if Query c ''patientId'' \<noteq> [] then
           (case ObjectIDFromHex (Query c ''patientId'') of
              None \<Rightarrow> f
            | Some pID \<Rightarrow> f\<lparr>f_patientId := Some pID\<rparr>)
         else f)
      else f)"

definition GetAppointment_find :: "Handler \<Rightarrow> Context \<Rightarrow> Filter \<Rightarrow> Response \<times> Handler" where
  "GetAppointment_find h c f0 =
     (let filter =
            filter_patientId_query c
              (filter_status c (filter_endDate c (filter_startDate c f0)));
          (cursor, db1) = appointments_Find (DB h) filter Descending
      in case cursor of
           None \<Rightarrow>
             (Response StatusInternalServerError (ErrorBody ''Failed to retrieve appointments''),
              h\<lparr>DB := db1\<rparr>)
         | Some docs \<Rightarrow>
             (let (res, db2) = cursor_All db1 docs
              in case res of
                   None \<Rightarrow>
                     (Response StatusInternalServerError
                        (ErrorBody ''Failed to decode appointments''),
                      h\<lparr>DB := db2\<rparr>)
                 | Some slice \<Rightarrow>
                     (JSON_Appointments StatusOK
                        (Some (case slice of None \<Rightarrow> [] | Some xs \<Rightarrow> xs)),
                      h\<lparr>DB := db2\<rparr>)))"

text \<open>
  \<open>GetAppointment\<close>: the client's own identifier goes into the filter first, then
  the rest of the handler runs from that filter.
\<close>

definition GetAppointment :: "Handler \<Rightarrow> Context \<Rightarrow> Response \<times> Handler" where
  "GetAppointment h c =
     (if userRole c = ''client'' then
        (case ObjectIDFromHex (userID c) of
           None \<Rightarrow>
             (Response StatusInternalServerError (ErrorBody ''Invalid user ID in token''), h)
         | Some patientID \<Rightarrow>
             GetAppointment_find h c (empty_filter\<lparr>f_patientId := Some patientID\<rparr>))
      else GetAppointment_find h c empty_filter)"

record UpdateRequest =
  upd_StartTime :: "string option"
  upd_EndTime :: "string option"
  upd_Service :: "string option"
  upd_Status :: "string option"

text \<open>The four steps that fill \<open>updateFields\<close>: a time that does not parse adds no key.\<close>

definition updateFields_of :: "UpdateRequest \<Rightarrow> UpdateFields" where
  "updateFields_of req =
     \<lparr>set_startTime =
        (case upd_StartTime req of None \<Rightarrow> None | Some s \<Rightarrow> parse_RFC3339 s),
      set_endTime =
        (case upd_EndTime req of None \<Rightarrow> None | Some s \<Rightarrow> parse_RFC3339 s),
      set_service = upd_Service req,
      set_status = upd_Status req\<rparr>"

definition UpdateAppointment ::
  "Handler \<Rightarrow> Context \<Rightarrow> UpdateRequest option \<Rightarrow> Response \<times> Handler" where
  "UpdateAppointment h c json =
     (if userRole c \<noteq> ''dentist'' \<and> userRole c \<noteq> ''staff'' then
        (Response StatusForbidden (ErrorBody ''Permission denied.''), h)
      else
     (case ObjectIDFromHex (Param c ''id'') of
        None \<Rightarrow> (Response StatusBadRequest (ErrorBody ''Invalid appointment ID''), h)
      | Some appointmentID \<Rightarrow>
     (case json of
        None \<Rightarrow> (Response StatusBadRequest (ErrorBody ''Invalid request body''), h)
      | Some req \<Rightarrow>
          (let updateFields = updateFields_of req
           in if len updateFields = 0 then
                (Response StatusBadRequest (ErrorBody ''No fields to update''), h)
              else
                (let (ok, db1) = appointments_UpdateOne (DB h) appointmentID updateFields
                 in if \<not> ok then
                      (Response StatusInternalServerError
                         (ErrorBody ''Failed to update appointment''),
                       h\<lparr>DB := db1\<rparr>)
                    else
                      (Response StatusOK (MessageBody ''Appointment updated successfully''),
                       h\<lparr>DB := db1\<rparr>))))))"

definition Cancelled :: UpdateFields where
  "Cancelled =
     \<lparr>set_startTime = None, set_endTime = None, set_service = None,
      set_status = Some ''Cancelled''\<rparr>"

definition CancelAppointment :: "Handler \<Rightarrow> Context \<Rightarrow> Response \<times> Handler" where
  "CancelAppointment h c =
     (if userRole c \<noteq> ''dentist'' \<and> userRole c \<noteq> ''staff'' then
        (Response StatusForbidden (ErrorBody ''Permission denied.''), h)
      else
     (case ObjectIDFromHex (Param c ''id'') of
        None \<Rightarrow> (Response StatusBadRequest (ErrorBody ''Invalid appointment ID''), h)
      | Some appointmentID \<Rightarrow>
          (let (found, db1) = appointments_FindOne_id (DB h) appointmentID
           in case found of
                None \<Rightarrow>
                  (Response StatusNotFound (ErrorBody ''Appointment not found''), h\<lparr>DB := db1\<rparr>)
              | Some apt \<Rightarrow>
                  (let (ok, db2) = appointments_UpdateOne db1 appointmentID Cancelled
                   in if \<not> ok then
                        (Response StatusInternalServerError
                           (ErrorBody ''Failed to cancel appointment''),
                         h\<lparr>DB := db2\<rparr>)
                      else
                        (let (patient, db3) = users_FindOne_id db2 (PatientID apt);
                             h3 = (case patient of
                                     None \<Rightarrow> h\<lparr>DB := db3\<rparr>
                                   | Some p \<Rightarrow>
                                       SendAppointmentConfirmationSMS (h\<lparr>DB := db3\<rparr>) p
                                         (apt\<lparr>Status := ''Cancelled''\<rparr>))
                         in (Response StatusOK
                               (MessageBody ''Appointment cancelled successfully''), h3))))))"

section \<open>Passwords and tokens (internal/utils)\<close>

text \<open>
  The capabilities the repository takes from libraries, as parameters: bcrypt
  (\<open>GenerateFromPassword\<close> with its cost, \<open>CompareHashAndPassword\<close> as "the
  error is nil"), the HS256 signature of a token's claims under a key, the clock, the
  validator's \<open>email\<close> rule, and the signing key read from \<open>JWT_SECRET\<close>.
\<close>

record Claims =
  claims_UserID :: string
  claims_Role :: string
  ExpiresAt :: Time

record Env =
  bcrypt_GenerateFromPassword :: "string \<Rightarrow> nat \<Rightarrow> string option"
  bcrypt_CompareHashAndPassword :: "string \<Rightarrow> string \<Rightarrow> bool"
  SignedString :: "Claims \<Rightarrow> string \<Rightarrow> string option"
  Now :: Time
  is_email :: "string \<Rightarrow> bool"
  jwtSecret :: string

definition HashPassword :: "Env \<Rightarrow> string \<Rightarrow> string option" where
  "HashPassword env password = bcrypt_GenerateFromPassword env password 14"

definition CheckPasswordHash :: "Env \<Rightarrow> string \<Rightarrow> string \<Rightarrow> bool" where
  "CheckPasswordHash env password hash = bcrypt_CompareHashAndPassword env hash password"

definition GenerateJWT :: "Env \<Rightarrow> string \<Rightarrow> string \<Rightarrow> string option" where
  "GenerateJWT env uid role =
     (if length (jwtSecret env) = 0 then None
      else
        SignedString env
          \<lparr>claims_UserID = uid, claims_Role = role, ExpiresAt = Add (Now env) (24 * Hour)\<rparr>
          (jwtSecret env))"

section \<open>Registration and login (internal/handlers/auth_handler.go)\<close>

record RegisterUserRequest =
  reg_FullName :: string
  reg_Email :: string
  reg_Password :: string
  reg_Role :: string
  reg_Phone :: string

text \<open>
  The number of characters of a string decoded from JSON (valid UTF-8): the bytes that
  are not continuation bytes. The validator's \<open>min=8\<close> counts these.
\<close>

definition RuneCountInString :: "string \<Rightarrow> nat" where
  "RuneCountInString s =
     length (filter (\<lambda>c. (of_char c :: nat) < 128 \<or> 192 \<le> (of_char c :: nat)) s)"

text \<open>
  The \<open>binding\<close> tags of \<open>RegisterUserRequest\<close>: \<open>required\<close> on the full
  name, the email (also \<open>email\<close>), the password (also \<open>min=8\<close>) and the phone. The
  role has no tag.
\<close>

definition binding_ok :: "Env \<Rightarrow> RegisterUserRequest \<Rightarrow> bool" where
  "binding_ok env req =
     (reg_FullName req \<noteq> [] \<and> reg_Email req \<noteq> [] \<and> is_email env (reg_Email req)
      \<and> reg_Password req \<noteq> [] \<and> 8 \<le> RuneCountInString (reg_Password req)
      \<and> reg_Phone req \<noteq> [])"

definition RegisterUser ::
  "Env \<Rightarrow> Handler \<Rightarrow> ObjectID \<Rightarrow> RegisterUserRequest option \<Rightarrow> Response \<times> Handler" where
  "RegisterUser env h newID json =
     (case json of
        None \<Rightarrow> (Response StatusBadRequest BindErrorBody, h)
      | Some req \<Rightarrow>
          if \<not> binding_ok env req then (Response StatusBadRequest BindErrorBody, h)
          else
     (case HashPassword env (reg_Password req) of
        None \<Rightarrow> (Response StatusInternalServerError (ErrorBody ''Failed to hash password''), h)
      | Some hashedPassword \<Rightarrow>
          (let role = (if reg_Role req = [] then ''client'' else reg_Role req);
               user = \<lparr>User_ID = newID, FullName = reg_FullName req, Email = reg_Email req,
                       Password = hashedPassword, Role = role, Phone = reg_Phone req\<rparr>;
               (err, db1) = users_InsertOne (DB h) user
           in case err of
                Some DuplicateKey \<Rightarrow>
                  (Response StatusConflict
                     (ErrorBody ''An account with this email already exists''),
                   h\<lparr>DB := db1\<rparr>)
              | Some StoreFailure \<Rightarrow>
                  (Response StatusInternalServerError (ErrorBody ''Failed to create user''),
                   h\<lparr>DB := db1\<rparr>)
              | None \<Rightarrow> (Response StatusCreated (UserBody (json_User user)), h\<lparr>DB := db1\<rparr>))))"

record LoginRequest =
  login_Email :: string
  login_Password :: string

definition Login :: "Env \<Rightarrow> Handler \<Rightarrow> LoginRequest option \<Rightarrow> Response \<times> Handler" where
  "Login env h json =
     (case json of
        None \<Rightarrow> (Response StatusBadRequest (ErrorBody ''Invalid request''), h)
      | Some loginReq \<Rightarrow>
          (let (found, db1) = users_FindOne_email (DB h) (login_Email loginReq)
           in case found of
                None \<Rightarrow>
                  (Response StatusUnauthorized (ErrorBody ''Invalid credentials''), h\<lparr>DB := db1\<rparr>)
              | Some user \<Rightarrow>
                  if \<not> CheckPasswordHash env (login_Password loginReq) (Password user) then
                    (Response StatusUnauthorized (ErrorBody ''Invalid credentials''),
                     h\<lparr>DB := db1\<rparr>)
                  else
                    (case GenerateJWT env (Hex (User_ID user)) (Role user) of
                       None \<Rightarrow>
                         (Response StatusInternalServerError
                            (ErrorBody ''Could not generate token''),
                          h\<lparr>DB := db1\<rparr>)
                     | Some token \<Rightarrow>
                         (Response StatusOK
                            (TokenBody token (json_User (user\<lparr>Password := []\<rparr>))),
                          h\<lparr>DB := db1\<rparr>))))"

section \<open>A small clinic\<close>

text \<open>
  The concrete store and sessions the scenarios below run on: two clients, a dentist,
  and appointments in July 2024.
\<close>

definition alice :: User where
  "alice =
     \<lparr>User_ID = 1, FullName = ''Alice'', Email = ''alice@example.com'',
      Password = ''bcrypt:wonderland'', Role = ''client'', Phone = ''+15550001''\<rparr>"

definition bob :: User where
  "bob =
     \<lparr>User_ID = 2, FullName = ''Bob'', Email = ''bob@example.com'',
      Password = ''bcrypt:builder123'', Role = ''client'', Phone = ''+15550002''\<rparr>"

definition drew :: User where
  "drew =
     \<lparr>User_ID = 3, FullName = ''Drew'', Email = ''drew@example.com'',
      Password = ''bcrypt:molar-4-ever'', Role = ''dentist'', Phone = ''+15550003''\<rparr>"

definition checkup :: Appointment where
  "checkup =
     \<lparr>ID = 101, PatientID = 1, PatientName = ''Alice'',
      StartTime = Date 2024 7 1 8 0 0 0, EndTime = Date 2024 7 1 9 0 0 0,
      Service = ''Check-up'', Status = ''Scheduled''\<rparr>"

definition cleaning :: Appointment where
  "cleaning =
     \<lparr>ID = 102, PatientID = 2, PatientName = ''Bob'',
      StartTime = Date 2024 7 31 23 0 0 0, EndTime = Date 2024 7 31 23 30 0 0,
      Service = ''Cleaning'', Status = ''Scheduled''\<rparr>"

definition night_call :: Appointment where
  "night_call =
     \<lparr>ID = 103, PatientID = 1, PatientName = ''Alice'',
      StartTime = Date 2024 7 31 23 59 30 0, EndTime = Date 2024 8 1 0 30 0 0,
      Service = ''Filling'', Status = ''Scheduled''\<rparr>"

text \<open>
  An appointment booked from \<open>9999-12-31T23:29:59-23:59\<close> to
  \<open>9999-12-31T23:59:59-23:59\<close>: in UTC it lies on the first day of the year 10000.
\<close>

definition far_future :: Appointment where
  "far_future =
     \<lparr>ID = 105, PatientID = 2, PatientName = ''Bob'',
      StartTime = Date 10000 1 1 23 28 59 0, EndTime = Date 10000 1 1 23 58 59 0,
      Service = ''Crown'', Status = ''Scheduled''\<rparr>"

definition clinic_with :: "Appointment list \<Rightarrow> Handler" where
  "clinic_with apts =
     \<lparr>DB = \<lparr>appointments = apts, users = [alice, bob, drew], email_unique = True,
             calls = [], faults = []\<rparr>,
      dispatched = []\<rparr>"

definition clinic :: Handler where
  "clinic = clinic_with [checkup, cleaning]"

definition as_alice :: "(string \<times> string) list \<Rightarrow> Context" where
  "as_alice q =
     \<lparr>userID = ''000000000000000000000001'', userRole = ''client'', params = [], query = q\<rparr>"

definition as_bob :: "(string \<times> string) list \<Rightarrow> Context" where
  "as_bob q =
     \<lparr>userID = ''000000000000000000000002'', userRole = ''client'', params = [], query = q\<rparr>"

definition as_drew :: "(string \<times> string) list \<Rightarrow> (string \<times> string) list \<Rightarrow> Context" where
  "as_drew p q =
     \<lparr>userID = ''000000000000000000000003'', userRole = ''dentist'', params = p, query = q\<rparr>"

definition test_env :: Env where
  "test_env =
     \<lparr>bcrypt_GenerateFromPassword = (\<lambda>password cost. Some (''bcrypt:'' @ password)),
      bcrypt_CompareHashAndPassword = (\<lambda>hash password. hash = ''bcrypt:'' @ password),
      SignedString = (\<lambda>claims key. Some (''signed:'' @ claims_UserID claims)),
      Now = Date 2024 6 30 12 0 0 0,
      is_email = (\<lambda>s. CHR ''@'' \<in> set s),
      jwtSecret = ''secret''\<rparr>"

text \<open>Request bodies for the scenarios.\<close>

definition booking :: CreateRequest where
  "booking =
     \<lparr>req_StartTime = ''2024-08-05T10:00:00+02:00'',
      req_EndTime = ''2024-08-05T10:30:00.5+02:00'', req_Service = ''Whitening''\<rparr>"

definition garbled :: CreateRequest where
  "garbled =
     \<lparr>req_StartTime = ''tomorrow at ten'', req_EndTime = ''2024-08-05T10:30:00Z'',
      req_Service = ''Whitening''\<rparr>"

definition far_booking :: CreateRequest where
  "far_booking =
     \<lparr>req_StartTime = ''9999-12-31T23:29:59-23:59'',
      req_EndTime = ''9999-12-31T23:59:59-23:59'', req_Service = ''Crown''\<rparr>"

definition offset_24 :: CreateRequest where
  "offset_24 =
     \<lparr>req_StartTime = ''2024-08-05T10:00:00+24:00'',
      req_EndTime = ''2024-08-05T10:30:00+24:00'', req_Service = ''Whitening''\<rparr>"

definition no_fields :: UpdateRequest where
  "no_fields =
     \<lparr>upd_StartTime = None, upd_EndTime = None, upd_Service = None, upd_Status = None\<rparr>"

definition mark_completed :: UpdateRequest where
  "mark_completed =
     \<lparr>upd_StartTime = Some ''next tuesday'', upd_EndTime = None, upd_Service = None,
      upd_Status = Some ''Completed''\<rparr>"

definition mallory :: RegisterUserRequest where
  "mallory =
     \<lparr>reg_FullName = ''Mallory'', reg_Email = ''mallory@example.com'',
      reg_Password = ''longenough1'', reg_Role = ''dentist'', reg_Phone = ''+15550004''\<rparr>"

text \<open>The path parameter \<open>:id\<close> of the appointment routes, for \<open>checkup\<close> (101),
  for \<open>far_future\<close> (105) and for an identifier no appointment has (999).\<close>

definition id_checkup :: "(string \<times> string) list" where
  "id_checkup = [(''id'', ''000000000000000000000065'')]"

definition id_unknown :: "(string \<times> string) list" where
  "id_unknown = [(''id'', ''0000000000000000000003e7'')]"

definition id_far_future :: "(string \<times> string) list" where
  "id_far_future = [(''id'', ''000000000000000000000069'')]"

section \<open>Facts about parsed times\<close>

















lemma parse_RFC3339_None:
  "(parse_RFC3339 s = None) = (parse_RFC3339_zone s = None)"
  by (simp add: parse_RFC3339_def)

section \<open>Facts about the store\<close>

lemma answers_next_iff:
  "answers_next n db = (\<forall>i<n. length (calls db) + i \<notin> set (faults db))"
  by (auto simp add: answers_next_def list_all_iff)

lemma answers_next_step:
  assumes "answers_next (Suc n) db"
  shows "answered db \<and> answers_next n (issue k db)"
proof -
  from assms have every: "\<forall>i<Suc n. length (calls db) + i \<notin> set (faults db)"
    by (simp only: answers_next_iff)
  then have "length (calls db) + 0 \<notin> set (faults db)" by blast
  then have now: "answered db" by (simp add: answered_def)
  have "\<forall>i<n. length (calls (issue k db)) + i \<notin> set (faults (issue k db))"
  proof (intro allI impI)
    fix i assume "i < n"
    then have "length (calls db) + Suc i \<notin> set (faults db)" using every by blast
    then show "length (calls (issue k db)) + i \<notin> set (faults (issue k db))"
      by (simp add: issue_def)
  qed
  then have "answers_next n (issue k db)" by (simp only: answers_next_iff)
  with now show ?thesis by simp
qed

lemma answers_next_three:
  assumes "answers_next (Suc (Suc (Suc n))) db"
  shows "answered db" and "answered (issue k1 db)" and "answered (issue k2 (issue k1 db))"
    and "answers_next n (issue k3 (issue k2 (issue k1 db)))"
proof -
  from answers_next_step[OF assms] show "answered db" by simp
  from answers_next_step[OF assms] have s1: "answers_next (Suc (Suc n)) (issue k1 db)" by simp
  from answers_next_step[OF s1] show "answered (issue k1 db)" by simp
  from answers_next_step[OF s1] have s2: "answers_next (Suc n) (issue k2 (issue k1 db))" by simp
  from answers_next_step[OF s2] show "answered (issue k2 (issue k1 db))" by simp
  from answers_next_step[OF s2] show "answers_next n (issue k3 (issue k2 (issue k1 db)))" by simp
qed

lemma issue_fields [simp]:
  "appointments (issue k db) = appointments db"
  "users (issue k db) = users db"
  "faults (issue k db) = faults db"
  by (simp_all add: issue_def)

lemma answered_appointments_update:
  "answered (db\<lparr>appointments := xs\<rparr>) = answered db"
  by (simp add: answered_def)

lemma answers_next_appointments_update:
  "answers_next n (db\<lparr>appointments := xs\<rparr>) = answers_next n db"
  by (simp add: answers_next_def)

lemma issue_appointments_update:
  "issue k (db\<lparr>appointments := xs\<rparr>) = (issue k db)\<lparr>appointments := xs\<rparr>"
  by (simp add: issue_def)

lemma find_None_list_ex: "(find P xs = None) = (\<not> list_ex P xs)"
  by (auto simp add: find_None_iff list_ex_iff)

text \<open>An update by identifier touches nothing when no document has the identifier.\<close>

lemma update_first_no_match: "\<not> list_ex p xs \<Longrightarrow> update_first p f xs = xs"
  by (induction xs) auto

text \<open>
  The store keeps \<open>_id\<close> unique, so updating the first document with an identifier is
  updating every document with it.
\<close>

lemma update_first_distinct:
  "distinct (map ID xs) \<Longrightarrow>
   update_first (\<lambda>a. ID a = oid) f xs = map (\<lambda>a. if ID a = oid then f a else a) xs"
proof (induction xs)
  case Nil
  then show ?case by simp
next
  case (Cons x xs)
  show ?case
  proof (cases "ID x = oid")
    case True
    with Cons.prems have "\<forall>a\<in>set xs. ID a \<noteq> oid" by (auto simp: image_iff)
    then have "map (\<lambda>a. if ID a = oid then f a else a) xs = xs"
      by (induction xs) auto
    with True show ?thesis by simp
  next
    case False
    with Cons show ?thesis by simp
  qed
qed

lemma appointments_InsertOne_distinct:
  assumes "distinct (map ID (appointments db))"
  shows "distinct (map ID (appointments (snd (appointments_InsertOne db a))))"
  using assms
  by (auto simp add: appointments_InsertOne_def bson_Appointment_def list_ex_iff image_iff)

lemma update_first_keeps_ids:
  "map ID (update_first (\<lambda>a. ID a = oid) (apply_set u) xs) = map ID xs"
  by (induction xs) (simp_all add: apply_set_def)

lemma appointments_UpdateOne_distinct:
  assumes "distinct (map ID (appointments db))"
  shows "distinct (map ID (appointments (snd (appointments_UpdateOne db oid u))))"
  using assms by (simp add: appointments_UpdateOne_def update_first_keeps_ids)

lemma matches_empty_filter [simp]: "matches empty_filter a"
  by (simp add: matches_def empty_filter_def)

lemma appointments_Find_set:
  "appointments_Find db f ord = (Some xs, db') \<Longrightarrow>
   set xs = {a \<in> set (appointments db). matches f a}"
  by (auto simp add: appointments_Find_def split: if_splits sort_order.splits)

lemma cursor_All_slice:
  "cursor_All db docs = (Some slice, db') \<Longrightarrow> slice = (if docs = [] then None else Some docs)"
  by (auto simp add: cursor_All_def split: if_splits)

lemma SendAppointmentConfirmationSMS_DB [simp]:
  "DB (SendAppointmentConfirmationSMS h p a) = DB h"
  by (simp add: SendAppointmentConfirmationSMS_def)

lemma apply_set_Cancelled: "apply_set Cancelled a = a\<lparr>Status := ''Cancelled''\<rparr>"
  by (simp add: apply_set_def Cancelled_def)

section \<open>What the list handlers return\<close>

lemma JSON_Appointments_list:
  "JSON_Appointments st slice = Response st' (AppointmentsBody (Some xs)) \<Longrightarrow>
   slice = Some xs \<and> list_all marshals_UTC xs"
  by (auto simp add: JSON_Appointments_def split: option.splits if_splits)

lemma GetAppointments_shows:
  assumes "fst (GetAppointments h c) = Response StatusOK (AppointmentsBody (Some xs))"
  shows "set xs \<subseteq> set (appointments (DB h))"
proof -
  let ?flt = "filter_status c (filter_endDate c (filter_startDate c empty_filter))"
  obtain cur db1 where f: "appointments_Find (DB h) ?flt Ascending = (cur, db1)"
    by (cases "appointments_Find (DB h) ?flt Ascending")
  show ?thesis
  proof (cases cur)
    case None
    with f assms show ?thesis by (simp add: GetAppointments_def)
  next
    case (Some docs)
    obtain res db2 where a: "cursor_All db1 docs = (res, db2)" by (cases "cursor_All db1 docs")
    show ?thesis
    proof (cases res)
      case None
      with f Some a assms show ?thesis by (simp add: GetAppointments_def)
    next
      case (Some slice)
      with f \<open>cur = Some docs\<close> a assms have "slice = Some xs"
        by (auto simp add: GetAppointments_def dest: JSON_Appointments_list)
      with cursor_All_slice[of db1 docs slice db2] a Some have "docs = xs"
        by (auto split: if_splits)
      with appointments_Find_set[of "DB h" ?flt Ascending docs db1] f \<open>cur = Some docs\<close>
      show ?thesis by auto
    qed
  qed
qed

lemma GetAppointment_find_shows:
  assumes "fst (GetAppointment_find h c start) = Response StatusOK (AppointmentsBody (Some xs))"
  shows "set xs \<subseteq> {a \<in> set (appointments (DB h)).
     matches (filter_patientId_query c
       (filter_status c (filter_endDate c (filter_startDate c start)))) a}"
proof -
  let ?flt = "filter_patientId_query c
    (filter_status c (filter_endDate c (filter_startDate c start)))"
  obtain cur db1 where f: "appointments_Find (DB h) ?flt Descending = (cur, db1)"
    by (cases "appointments_Find (DB h) ?flt Descending")
  show ?thesis
  proof (cases cur)
    case None
    with f assms show ?thesis by (simp add: GetAppointment_find_def)
  next
    case (Some docs)
    obtain res db2 where a: "cursor_All db1 docs = (res, db2)" by (cases "cursor_All db1 docs")
    show ?thesis
    proof (cases res)
      case None
      with f Some a assms show ?thesis by (simp add: GetAppointment_find_def)
    next
      case (Some slice)
      with f \<open>cur = Some docs\<close> a assms
      have "xs = (case slice of None \<Rightarrow> [] | Some ys \<Rightarrow> ys)"
        by (auto simp add: GetAppointment_find_def dest: JSON_Appointments_list)
      with cursor_All_slice[of db1 docs slice db2] a Some have "docs = xs"
        by (auto split: if_splits)
      with appointments_Find_set[of "DB h" ?flt Descending docs db1] f \<open>cur = Some docs\<close>
      show ?thesis by auto
    qed
  qed
qed

lemma GetAppointment_via_find:
  assumes "fst (GetAppointment h c) = Response StatusOK (AppointmentsBody (Some xs))"
  shows "\<exists>start. fst (GetAppointment_find h c start)
           = Response StatusOK (AppointmentsBody (Some xs))"
proof (cases "userRole c = ''client''")
  case False
  with assms show ?thesis by (auto simp add: GetAppointment_def)
next
  case True
  show ?thesis
  proof (cases "ObjectIDFromHex (userID c)")
    case None
    with True assms show ?thesis by (simp add: GetAppointment_def)
  next
    case (Some p)
    with True assms show ?thesis by (auto simp add: GetAppointment_def)
  qed
qed

lemma patient_filter_kept:
  "f_patientId (filter_status c (filter_endDate c (filter_startDate c f))) = f_patientId f"
  by (simp add: filter_status_def filter_endDate_def filter_startDate_def Let_def
      split: option.splits)

text \<open>
  The role-scoped variant, \<open>GET /api/appointment/user/:id\<close>: whatever the query
  string says, a client is shown appointments of the session's own identifier only.
\<close>

lemma GetAppointment_client_own:
  assumes "userRole c = ''client''"
      and "fst (GetAppointment h c) = Response StatusOK (AppointmentsBody (Some xs))"
  shows "\<forall>a\<in>set xs. ObjectIDFromHex (userID c) = Some (PatientID a)"
proof (cases "ObjectIDFromHex (userID c)")
  case None
  with assms show ?thesis by (simp add: GetAppointment_def)
next
  case (Some patientID)
  let ?start = "empty_filter\<lparr>f_patientId := Some patientID\<rparr>"
  let ?flt = "filter_patientId_query c
    (filter_status c (filter_endDate c (filter_startDate c ?start)))"
  from assms Some
  have "fst (GetAppointment_find h c ?start) = Response StatusOK (AppointmentsBody (Some xs))"
    by (simp add: GetAppointment_def)
  from GetAppointment_find_shows[OF this]
  have sub: "set xs \<subseteq> {a \<in> set (appointments (DB h)). matches ?flt a}" .
  have "f_patientId ?flt = Some patientID"
    using assms(1) by (simp add: filter_patientId_query_def patient_filter_kept)
  then have "\<And>a. matches ?flt a \<Longrightarrow> PatientID a = patientID"
    by (simp add: matches_def)
  with sub Some show ?thesis by auto
qed

text \<open>It never answers with the nil slice.\<close>

lemma GetAppointment_never_null:
  "fst (GetAppointment h c) \<noteq> Response StatusOK (AppointmentsBody None)"
  by (simp add: GetAppointment_def GetAppointment_find_def JSON_Appointments_def Let_def
      split: option.splits prod.splits)

text \<open>
  A list that is written holds only appointments whose times marshal; one appointment
  that does not marshal empties the body of every list it would be in.
\<close>

lemma GetAppointments_marshal:
  assumes "fst (GetAppointments h c) = Response StatusOK (AppointmentsBody (Some xs))"
  shows "list_all marshals_UTC xs"
  using assms
  by (auto simp add: GetAppointments_def Let_def split: option.splits prod.splits
      dest: JSON_Appointments_list)

lemma GetAppointment_marshal:
  assumes "fst (GetAppointment h c) = Response StatusOK (AppointmentsBody (Some xs))"
  shows "list_all marshals_UTC xs"
  using assms
  by (auto simp add: GetAppointment_def GetAppointment_find_def Let_def
      split: option.splits prod.splits if_splits dest: JSON_Appointments_list)

lemma GetAppointments_unfiltered:
  assumes "query c = []" and "answers_next (Suc (Suc n)) (DB h)"
      and "appointments (DB h) \<noteq> []"
      and "list_all marshals_UTC (appointments (DB h))"
  shows "fst (GetAppointments h c) =
     Response StatusOK (AppointmentsBody (Some (sort_key StartTime (appointments (DB h)))))"
proof -
  from answers_next_step[OF assms(2)] have a1: "answered (DB h)"
    and s1: "answers_next (Suc n) (issue (Find ''appointments'') (DB h))" by simp_all
  from answers_next_step[OF s1] have a2: "answered (issue (Find ''appointments'') (DB h))"
    by simp
  have q: "\<And>k. Query c k = []" using assms(1) by (simp add: Query_def)
  have f: "filter_status c (filter_endDate c (filter_startDate c empty_filter)) = empty_filter"
    by (simp add: filter_status_def filter_endDate_def filter_startDate_def q)
  have ne: "sort_key StartTime (appointments (DB h)) \<noteq> []"
    using assms(3) by (metis length_sort length_0_conv)
  have ok: "list_all marshals_UTC (sort_key StartTime (appointments (DB h)))"
    using assms(4) by (simp add: list_all_iff)
  show ?thesis
    using a1 a2 ne ok
    by (simp add: GetAppointments_def f appointments_Find_def cursor_All_def Let_def
        JSON_Appointments_def)
qed

text \<open>
  The end of the date range: with an \<open>endDate\<close> that parses and nothing else in the
  query, an appointment is listed exactly when it starts no later than 23 hours 59
  minutes after midnight of that day.
\<close>

lemma endDate_boundary:
  assumes "Query c ''startDate'' = []" and "Query c ''status'' = []"
      and "Query c ''endDate'' \<noteq> []" and "parse_date (Query c ''endDate'') = Some d"
  shows "matches (filter_status c (filter_endDate c (filter_startDate c empty_filter))) a
           = (StartTime a \<le> d + 86340 * Second)"
proof -
  have "(d + 86340 * Second) div Millisecond * Millisecond = d + 86340 * Second
        \<Longrightarrow> ?thesis"
    using assms
    by (simp add: filter_status_def filter_endDate_def filter_startDate_def empty_filter_def
        matches_def in_range_def Add_def Hour_def Minute_def bson_DateTime_def Let_def)
  moreover have "(d + 86340 * Second) div Millisecond * Millisecond = d + 86340 * Second"
  proof -
    obtain y m dd rest where "d = Date y m dd 0 0 0 0"
      using assms(4) by (auto simp add: parse_date_def split: option.splits if_splits)
    then have "d + 86340 * Second = (daysSinceEpoch y m dd * 86400000 + 86340000) * Millisecond"
      by (simp add: Date_def Second_def Millisecond_def)
    moreover have "\<And>k::int. (k * Millisecond) div Millisecond * Millisecond = k * Millisecond"
      by (simp add: Millisecond_def)
    ultimately show ?thesis by simp
  qed
  ultimately show ?thesis by blast
qed

text \<open>The two dated examples of the specification, on the clinic's store.\<close>

lemma date_range_examples:
  "parse_RFC3339 ''2024-07-01T08:00:00Z'' = Some (StartTime checkup)
   \<and> parse_RFC3339 ''2024-07-31T23:00:00Z'' = Some (StartTime cleaning)
   \<and> fst (GetAppointments clinic
            (as_drew [] [(''startDate'', ''2024-07-01''), (''endDate'', ''2024-07-31'')]))
       = Response StatusOK (AppointmentsBody (Some [checkup, cleaning]))
   \<and> fst (GetAppointments clinic (as_drew [] [(''startDate'', ''2024-07-02'')]))
       = Response StatusOK (AppointmentsBody (Some [cleaning]))"
  by code_simp

section \<open>Listing appointments\<close>

text \<open>
  Claim C1. For a caller whose session role is \<open>client\<close>, a list operation never
  returns an appointment of another patient, in both list variants.

  \<open>GET /api/appointment/user/:id\<close> does this (\<open>GetAppointment_client_own\<close>).
  \<open>GET /api/appointments\<close> never reads the session: here the client Bob, identifier
  2, asks with no filter and is shown Alice's check-up, whose patient identifier is 1.
\<close>

theorem GetAppointments_shows_other_patients:
  "userRole (as_bob []) = ''client''
   \<and> ObjectIDFromHex (userID (as_bob [])) = Some 2
   \<and> fst (GetAppointments clinic (as_bob []))
       = Response StatusOK (AppointmentsBody (Some [checkup, cleaning]))
   \<and> PatientID checkup = 1"
  by code_simp

text \<open>
  Claim C6. The date range of the list operations: \<open>startDate\<close> counts from 00:00 of
  its day and \<open>endDate\<close> through 23:59:59 of its day.

  The end of the range is midnight plus 23 hours 59 minutes, 23:59:00
  (\<open>endDate_boundary\<close>), so the last minute of the day is left out: the appointment
  starting at 2024-07-31T23:59:30Z is in the store and in neither list for
  \<open>endDate=2024-07-31\<close>. The dated examples of the claim hold
  (\<open>date_range_examples\<close>).
\<close>

theorem endDate_leaves_out_last_minute:
  "parse_RFC3339 ''2024-07-31T23:59:30Z'' = Some (StartTime night_call)
   \<and> fst (GetAppointments (clinic_with [checkup, cleaning, night_call])
            (as_drew [] [(''endDate'', ''2024-07-31'')]))
       = Response StatusOK (AppointmentsBody (Some [checkup, cleaning]))
   \<and> fst (GetAppointment (clinic_with [checkup, cleaning, night_call])
            (as_drew [] [(''endDate'', ''2024-07-31'')]))
       = Response StatusOK (AppointmentsBody (Some [cleaning, checkup]))"
  by code_simp

text \<open>
  Claim C8. A list call whose filters match no appointment returns an empty sequence,
  never null, in both list variants.

  \<open>GET /api/appointment/user/:id\<close> replaces the nil slice by an empty one
  (\<open>GetAppointment_never_null\<close>); \<open>GET /api/appointments\<close> writes the nil slice as
  it is, JSON \<open>null\<close>. No appointment of the clinic has the status asked for here.
\<close>

theorem GetAppointments_answers_null:
  "fst (GetAppointments clinic (as_drew [] [(''status'', ''Postponed'')]))
     = Response StatusOK (AppointmentsBody None)
   \<and> fst (GetAppointment clinic (as_drew [] [(''status'', ''Postponed'')]))
     = Response StatusOK (AppointmentsBody (Some []))"
  by code_simp

section \<open>Booking\<close>



text \<open>
  Outside RFC 3339: with the offset \<open>+24:00\<close>, which \<open>time.Parse\<close> takes, the
  appointment is stored all the same and the 201 has no body, the time not being
  writable as JSON.
\<close>

lemma CreateAppointment_offset_24:
  "parse_RFC3339_zone (req_StartTime offset_24) = Some (Date 2024 8 4 10 0 0 0, 86400)
   \<and> fst (CreateAppointment clinic (as_alice []) 104 (Some offset_24))
       = Response StatusCreated NoBody
   \<and> map ID (appointments (DB (snd (CreateAppointment clinic (as_alice []) 104
                                       (Some offset_24)))))
       = [101, 102, 104]"
  by code_simp

text \<open>
  Claim C3, as stated: for every caller whose role is not \<open>client\<close>, Create fails
  with PermissionDenied. The handler reads the body and the two times before it looks
  at the role, so the dentist's request with a start time that is no RFC3339 time is
  answered 400, not 403.
\<close>

theorem CreateAppointment_validates_before_role:
  "userRole (as_drew [] []) \<noteq> ''client''
   \<and> fst (CreateAppointment clinic (as_drew [] []) 104 (Some garbled))
       = Response StatusBadRequest (ErrorBody ''Invalid time format, use RFC3339'')
   \<and> code (fst (CreateAppointment clinic (as_drew [] []) 104 (Some garbled)))
       \<noteq> StatusForbidden"
  by code_simp

text \<open>
  Claim C3, amended. For every caller whose role is not \<open>client\<close>, Create leaves the
  handler's state as it was: no store operation is issued, nothing is persisted and no
  message is dispatched. The answer is 400 when the body does not decode or one of its
  times does not parse as RFC3339, and 403 otherwise.
\<close>

theorem CreateAppointment_refuses_other_roles:
  assumes "userRole c \<noteq> ''client''"
  shows "snd (CreateAppointment h c newID json) = h
       \<and> fst (CreateAppointment h c newID json) =
           (case json of
              None \<Rightarrow> Response StatusBadRequest (ErrorBody ''Invalid request body'')
            | Some req \<Rightarrow>
                if parse_RFC3339 (req_StartTime req) = None
                   \<or> parse_RFC3339 (req_EndTime req) = None
                then Response StatusBadRequest (ErrorBody ''Invalid time format, use RFC3339'')
                else Response StatusForbidden
                       (ErrorBody ''Only clients can book appointments.''))"
  using assms
  by (auto simp add: CreateAppointment_def parse_RFC3339_None split: option.splits)

theorem CreateAppointment_refuses_other_roles_witness:
  "userRole (as_drew [] []) \<noteq> ''client''
   \<and> CreateAppointment clinic (as_drew [] []) 104 (Some booking) =
      (Response StatusForbidden (ErrorBody ''Only clients can book appointments.''), clinic)"
proof -
  have h1: "userRole (as_drew [] []) \<noteq> ''client''" by code_simp
  have h2: "parse_RFC3339 (req_StartTime booking) \<noteq> None" by code_simp
  have h3: "parse_RFC3339 (req_EndTime booking) \<noteq> None" by code_simp
  from CreateAppointment_refuses_other_roles[OF h1, of clinic 104 "Some booking"] h2 h3
  have "CreateAppointment clinic (as_drew [] []) 104 (Some booking) =
      (Response StatusForbidden (ErrorBody ''Only clients can book appointments.''), clinic)"
    by (simp add: prod_eq_iff)
  with h1 show ?thesis by simp
qed

section \<open>Updating and cancelling\<close>

text \<open>
  Claim C4. Update by a dentist or staff caller with a well-formed appointment
  identifier. With none of the four fields supplied the answer is 400 and the
  handler's state is as it was. With at least one valid field (a time that parses, a
  service or a status) the answer is 200 and the appointment with that identifier
  has exactly those fields replaced: a time that parses is stored (as the store keeps
  times), a time that does not parse is dropped and leaves the stored one, and the
  identifier, the patient and the patient name stay, as does every other appointment
  and every user. The store is assumed to answer the update.
\<close>

theorem UpdateAppointment_applies_supplied_fields:
  assumes "userRole c = ''dentist'' \<or> userRole c = ''staff''"
      and "ObjectIDFromHex (Param c ''id'') = Some oid"
      and "answered (DB h)"
      and "distinct (map ID (appointments (DB h)))"
  shows "(upd_StartTime req = None \<and> upd_EndTime req = None
            \<and> upd_Service req = None \<and> upd_Status req = None
          \<longrightarrow> UpdateAppointment h c (Some req)
                = (Response StatusBadRequest (ErrorBody ''No fields to update''), h))
       \<and> (Option.bind (upd_StartTime req) parse_RFC3339 \<noteq> None
            \<or> Option.bind (upd_EndTime req) parse_RFC3339 \<noteq> None
            \<or> upd_Service req \<noteq> None \<or> upd_Status req \<noteq> None
          \<longrightarrow> UpdateAppointment h c (Some req) =
               (Response StatusOK (MessageBody ''Appointment updated successfully''),
                h\<lparr>DB := issue (UpdateOne ''appointments'')
                  ((DB h)\<lparr>appointments :=
                     map (\<lambda>a. if ID a = oid then
                            a\<lparr>StartTime :=
                                (case Option.bind (upd_StartTime req) parse_RFC3339 of
                                   None \<Rightarrow> StartTime a | Some t \<Rightarrow> bson_DateTime t),
                              EndTime :=
                                (case Option.bind (upd_EndTime req) parse_RFC3339 of
                                   None \<Rightarrow> EndTime a | Some t \<Rightarrow> bson_DateTime t),
                              Service :=
                                (case upd_Service req of None \<Rightarrow> Service a | Some s \<Rightarrow> s),
                              Status :=
                                (case upd_Status req of None \<Rightarrow> Status a | Some s \<Rightarrow> s)\<rparr>
                          else a) (appointments (DB h))\<rparr>)\<rparr>))"
proof -
  have uf: "updateFields_of req =
     \<lparr>set_startTime = Option.bind (upd_StartTime req) parse_RFC3339,
      set_endTime = Option.bind (upd_EndTime req) parse_RFC3339,
      set_service = upd_Service req, set_status = upd_Status req\<rparr>"
    by (simp add: updateFields_of_def split: option.splits)
  have none: "upd_StartTime req = None \<and> upd_EndTime req = None
      \<and> upd_Service req = None \<and> upd_Status req = None
     \<Longrightarrow> len (updateFields_of req) = 0"
    by (simp add: uf len_def)
  have some: "Option.bind (upd_StartTime req) parse_RFC3339 \<noteq> None
      \<or> Option.bind (upd_EndTime req) parse_RFC3339 \<noteq> None
      \<or> upd_Service req \<noteq> None \<or> upd_Status req \<noteq> None
     \<Longrightarrow> len (updateFields_of req) \<noteq> 0"
    by (auto simp add: uf len_def)
  have ap: "(\<lambda>a. if ID a = oid then apply_set (updateFields_of req) a else a) =
     (\<lambda>a. if ID a = oid then
             a\<lparr>StartTime :=
                 (case Option.bind (upd_StartTime req) parse_RFC3339 of
                    None \<Rightarrow> StartTime a | Some t \<Rightarrow> bson_DateTime t),
               EndTime :=
                 (case Option.bind (upd_EndTime req) parse_RFC3339 of
                    None \<Rightarrow> EndTime a | Some t \<Rightarrow> bson_DateTime t),
               Service :=
                 (case upd_Service req of None \<Rightarrow> Service a | Some s \<Rightarrow> s),
               Status :=
                 (case upd_Status req of None \<Rightarrow> Status a | Some s \<Rightarrow> s)\<rparr>
           else a)"
    by (rule ext) (simp add: apply_set_def uf)
  have run: "len (updateFields_of req) \<noteq> 0 \<Longrightarrow> UpdateAppointment h c (Some req) =
       (Response StatusOK (MessageBody ''Appointment updated successfully''),
        h\<lparr>DB := issue (UpdateOne ''appointments'')
           ((DB h)\<lparr>appointments :=
              update_first (\<lambda>a. ID a = oid) (apply_set (updateFields_of req))
                (appointments (DB h))\<rparr>)\<rparr>)"
    using assms(1,2,3)
    by (auto simp add: UpdateAppointment_def appointments_UpdateOne_def Let_def)
  show ?thesis
  proof (intro conjI impI)
    assume "upd_StartTime req = None \<and> upd_EndTime req = None
      \<and> upd_Service req = None \<and> upd_Status req = None"
    from none[OF this]
    show "UpdateAppointment h c (Some req)
            = (Response StatusBadRequest (ErrorBody ''No fields to update''), h)"
      using assms(1,2) by (auto simp add: UpdateAppointment_def Let_def)
  next
    assume "Option.bind (upd_StartTime req) parse_RFC3339 \<noteq> None
      \<or> Option.bind (upd_EndTime req) parse_RFC3339 \<noteq> None
      \<or> upd_Service req \<noteq> None \<or> upd_Status req \<noteq> None"
    from some[OF this] have l: "len (updateFields_of req) \<noteq> 0" .
    show "UpdateAppointment h c (Some req) =
               (Response StatusOK (MessageBody ''Appointment updated successfully''),
                h\<lparr>DB := issue (UpdateOne ''appointments'')
                  ((DB h)\<lparr>appointments :=
                     map (\<lambda>a. if ID a = oid then
                            a\<lparr>StartTime :=
                                (case Option.bind (upd_StartTime req) parse_RFC3339 of
                                   None \<Rightarrow> StartTime a | Some t \<Rightarrow> bson_DateTime t),
                              EndTime :=
                                (case Option.bind (upd_EndTime req) parse_RFC3339 of
                                   None \<Rightarrow> EndTime a | Some t \<Rightarrow> bson_DateTime t),
                              Service :=
                                (case upd_Service req of None \<Rightarrow> Service a | Some s \<Rightarrow> s),
                              Status :=
                                (case upd_Status req of None \<Rightarrow> Status a | Some s \<Rightarrow> s)\<rparr>
                          else a) (appointments (DB h))\<rparr>)\<rparr>)"
      unfolding run[OF l] update_first_distinct[OF assms(4)] ap ..
  qed
qed

theorem UpdateAppointment_applies_supplied_fields_witness:
  "(userRole (as_drew id_checkup []) = ''dentist'' \<or> userRole (as_drew id_checkup []) = ''staff'')
   \<and> ObjectIDFromHex (Param (as_drew id_checkup []) ''id'') = Some 101
   \<and> answered (DB clinic)
   \<and> distinct (map ID (appointments (DB clinic)))
   \<and> UpdateAppointment clinic (as_drew id_checkup []) (Some no_fields)
       = (Response StatusBadRequest (ErrorBody ''No fields to update''), clinic)
   \<and> parse_RFC3339 ''next tuesday'' = None
   \<and> fst (UpdateAppointment clinic (as_drew id_checkup []) (Some mark_completed))
       = Response StatusOK (MessageBody ''Appointment updated successfully'')
   \<and> appointments (DB (snd (UpdateAppointment clinic (as_drew id_checkup [])
                               (Some mark_completed))))
       = [checkup\<lparr>Status := ''Completed''\<rparr>, cleaning]"
proof -
  have h1: "userRole (as_drew id_checkup []) = ''dentist''
      \<or> userRole (as_drew id_checkup []) = ''staff''" by code_simp
  have h2: "ObjectIDFromHex (Param (as_drew id_checkup []) ''id'') = Some 101" by code_simp
  have h3: "answered (DB clinic)" by code_simp
  have h4: "distinct (map ID (appointments (DB clinic)))" by code_simp
  have n: "upd_StartTime no_fields = None \<and> upd_EndTime no_fields = None
      \<and> upd_Service no_fields = None \<and> upd_Status no_fields = None" by code_simp
  have s: "Option.bind (upd_StartTime mark_completed) parse_RFC3339 \<noteq> None
      \<or> Option.bind (upd_EndTime mark_completed) parse_RFC3339 \<noteq> None
      \<or> upd_Service mark_completed \<noteq> None \<or> upd_Status mark_completed \<noteq> None"
    by code_simp
  have p: "parse_RFC3339 ''next tuesday'' = None" by code_simp
  from UpdateAppointment_applies_supplied_fields[OF h1 h2 h3 h4, of no_fields] n
  have c1: "UpdateAppointment clinic (as_drew id_checkup []) (Some no_fields)
       = (Response StatusBadRequest (ErrorBody ''No fields to update''), clinic)"
    by blast
  from UpdateAppointment_applies_supplied_fields[OF h1 h2 h3 h4, of mark_completed] s
  have c2: "UpdateAppointment clinic (as_drew id_checkup []) (Some mark_completed) =
     (Response StatusOK (MessageBody ''Appointment updated successfully''),
      clinic\<lparr>DB := issue (UpdateOne ''appointments'')
        ((DB clinic)\<lparr>appointments :=
           map (\<lambda>a. if ID a = 101 then
                  a\<lparr>StartTime :=
                      (case Option.bind (upd_StartTime mark_completed) parse_RFC3339 of
                         None \<Rightarrow> StartTime a | Some t \<Rightarrow> bson_DateTime t),
                    EndTime :=
                      (case Option.bind (upd_EndTime mark_completed) parse_RFC3339 of
                         None \<Rightarrow> EndTime a | Some t \<Rightarrow> bson_DateTime t),
                    Service :=
                      (case upd_Service mark_completed of None \<Rightarrow> Service a | Some s \<Rightarrow> s),
                    Status :=
                      (case upd_Status mark_completed of None \<Rightarrow> Status a | Some s \<Rightarrow> s)\<rparr>
                else a) (appointments (DB clinic))\<rparr>)\<rparr>)"
    by blast
  have e: "map (\<lambda>a. if ID a = 101 then
                  a\<lparr>StartTime :=
                      (case Option.bind (upd_StartTime mark_completed) parse_RFC3339 of
                         None \<Rightarrow> StartTime a | Some t \<Rightarrow> bson_DateTime t),
                    EndTime :=
                      (case Option.bind (upd_EndTime mark_completed) parse_RFC3339 of
                         None \<Rightarrow> EndTime a | Some t \<Rightarrow> bson_DateTime t),
                    Service :=
                      (case upd_Service mark_completed of None \<Rightarrow> Service a | Some s \<Rightarrow> s),
                    Status :=
                      (case upd_Status mark_completed of None \<Rightarrow> Status a | Some s \<Rightarrow> s)\<rparr>
                else a) (appointments (DB clinic))
          = [checkup\<lparr>Status := ''Completed''\<rparr>, cleaning]"
    by code_simp
  have c3: "fst (UpdateAppointment clinic (as_drew id_checkup []) (Some mark_completed))
       = Response StatusOK (MessageBody ''Appointment updated successfully'')"
    by (simp only: c2 fst_conv)
  have c4: "appointments (DB (snd (UpdateAppointment clinic (as_drew id_checkup [])
                               (Some mark_completed))))
       = [checkup\<lparr>Status := ''Completed''\<rparr>, cleaning]"
    by (simp add: c2 e)
  from h1 h2 h3 h4 c1 p c3 c4 show ?thesis by blast
qed

text \<open>
  An update set left empty, by fields that are absent or by times that do not parse, is
  refused in the same way.
\<close>

lemma UpdateAppointment_nothing_valid:
  assumes "userRole c = ''dentist'' \<or> userRole c = ''staff''"
      and "ObjectIDFromHex (Param c ''id'') = Some oid"
      and "len (updateFields_of req) = 0"
  shows "UpdateAppointment h c (Some req)
           = (Response StatusBadRequest (ErrorBody ''No fields to update''), h)"
  using assms by (auto simp add: UpdateAppointment_def Let_def)

text \<open>
  Claim C10. Update by a dentist or staff caller with a well-formed identifier that
  no stored appointment has, and at least one valid field: the answer is 200
  \<open>Appointment updated successfully\<close>, no NotFound, and the collections are as they
  were (the state differs by the one operation issued). The store is assumed to
  answer.
\<close>

theorem UpdateAppointment_unknown_id_succeeds:
  assumes "userRole c = ''dentist'' \<or> userRole c = ''staff''"
      and "ObjectIDFromHex (Param c ''id'') = Some oid"
      and "len (updateFields_of req) \<noteq> 0"
      and "answered (DB h)"
      and "\<not> list_ex (\<lambda>a. ID a = oid) (appointments (DB h))"
  shows "UpdateAppointment h c (Some req) =
           (Response StatusOK (MessageBody ''Appointment updated successfully''),
            h\<lparr>DB := issue (UpdateOne ''appointments'') (DB h)\<rparr>)
       \<and> appointments (DB (snd (UpdateAppointment h c (Some req)))) = appointments (DB h)
       \<and> users (DB (snd (UpdateAppointment h c (Some req)))) = users (DB h)"
  using assms
  by (auto simp add: UpdateAppointment_def appointments_UpdateOne_def Let_def
      update_first_no_match)

theorem UpdateAppointment_unknown_id_succeeds_witness:
  "(userRole (as_drew id_unknown []) = ''dentist'' \<or> userRole (as_drew id_unknown []) = ''staff'')
   \<and> ObjectIDFromHex (Param (as_drew id_unknown []) ''id'') = Some 999
   \<and> len (updateFields_of mark_completed) \<noteq> 0
   \<and> answered (DB clinic)
   \<and> \<not> list_ex (\<lambda>a. ID a = 999) (appointments (DB clinic))
   \<and> UpdateAppointment clinic (as_drew id_unknown []) (Some mark_completed) =
       (Response StatusOK (MessageBody ''Appointment updated successfully''),
        clinic\<lparr>DB := issue (UpdateOne ''appointments'') (DB clinic)\<rparr>)
   \<and> appointments (DB (snd (UpdateAppointment clinic (as_drew id_unknown [])
                               (Some mark_completed)))) = appointments (DB clinic)
   \<and> users (DB (snd (UpdateAppointment clinic (as_drew id_unknown [])
                        (Some mark_completed)))) = users (DB clinic)"
proof -
  have h1: "userRole (as_drew id_unknown []) = ''dentist''
      \<or> userRole (as_drew id_unknown []) = ''staff''" by code_simp
  have h2: "ObjectIDFromHex (Param (as_drew id_unknown []) ''id'') = Some 999" by code_simp
  have h3: "len (updateFields_of mark_completed) \<noteq> 0" by code_simp
  have h4: "answered (DB clinic)" by code_simp
  have h5: "\<not> list_ex (\<lambda>a. ID a = 999) (appointments (DB clinic))" by code_simp
  from UpdateAppointment_unknown_id_succeeds[OF h1 h2 h3 h4 h5] h1 h2 h3 h4 h5
  show ?thesis by blast
qed

lemma cancelled_in_map:
  assumes "x \<in> set (map (\<lambda>a. if ID a = oid then a\<lparr>Status := ''Cancelled''\<rparr> else a) xs)"
      and "ID x = oid"
  shows "Status x = ''Cancelled''"
proof -
  from assms(1)
  have "\<exists>b\<in>set xs. x = (if ID b = oid then b\<lparr>Status := ''Cancelled''\<rparr> else b)"
    by (simp only: set_map image_iff)
  then obtain b where b: "x = (if ID b = oid then b\<lparr>Status := ''Cancelled''\<rparr> else b)"
    by blast
  show ?thesis
  proof (cases "ID b = oid")
    case True
    with b show ?thesis by simp
  next
    case False
    with b assms(2) show ?thesis by simp
  qed
qed

lemma CancelAppointment_missing:
  assumes "userRole c = ''dentist'' \<or> userRole c = ''staff''"
      and "ObjectIDFromHex (Param c ''id'') = Some oid"
      and "find (\<lambda>a. ID a = oid) (appointments (DB h)) = None"
  shows "CancelAppointment h c =
     (Response StatusNotFound (ErrorBody ''Appointment not found''),
      h\<lparr>DB := issue (FindOne ''appointments'') (DB h)\<rparr>)"
  using assms by (auto simp add: CancelAppointment_def appointments_FindOne_id_def)

lemma CancelAppointment_found:
  assumes "userRole c = ''dentist'' \<or> userRole c = ''staff''"
      and "ObjectIDFromHex (Param c ''id'') = Some oid"
      and "find (\<lambda>a. ID a = oid) (appointments (DB h)) = Some apt"
      and "answers_next (Suc (Suc (Suc n))) (DB h)"
  shows "fst (CancelAppointment h c) =
           Response StatusOK (MessageBody ''Appointment cancelled successfully'')
       \<and> DB (snd (CancelAppointment h c)) =
           (issue (FindOne ''users'') (issue (UpdateOne ''appointments'')
              (issue (FindOne ''appointments'') (DB h))))
           \<lparr>appointments := update_first (\<lambda>a. ID a = oid) (apply_set Cancelled)
                              (appointments (DB h))\<rparr>"
proof -
  note a = answers_next_three[OF assms(4)]
  have a2: "answered (issue (FindOne ''appointments'') (DB h))" by (rule a(2))
  have a3: "answered (issue (UpdateOne ''appointments'')
              (issue (FindOne ''appointments'') (DB h)))"
    by (rule a(3))
  show ?thesis
    using assms(1,2,3) a(1) a2 a3
    by (auto simp add: CancelAppointment_def appointments_FindOne_id_def
        appointments_UpdateOne_def users_FindOne_id_def Let_def
        answered_appointments_update issue_appointments_update
        split: option.splits)
qed

lemma marshals_UTC_Status [simp]: "marshals_UTC (a\<lparr>Status := s\<rparr>) = marshals_UTC a"
  by (simp add: marshals_UTC_def)

lemma marshals_UTC_map_Status:
  "list_all marshals_UTC (map (\<lambda>a. if ID a = oid then a\<lparr>Status := s\<rparr> else a) xs)
     = list_all marshals_UTC xs"
  by (induction xs) simp_all

text \<open>
  A client can book the appointment \<open>far_future\<close>: both of its times are well-formed
  RFC3339 and are written back in the 201, in their own zone.
\<close>

lemma far_future_bookable:
  "fst (CreateAppointment (clinic_with [checkup]) (as_bob []) 105 (Some far_booking))
     = Response StatusCreated (AppointmentBody far_future)
   \<and> appointments (DB (snd (CreateAppointment (clinic_with [checkup]) (as_bob []) 105
                              (Some far_booking))))
     = [checkup, far_future]"
  by code_simp

text \<open>
  Claim C5, as stated: after Cancel on an existing appointment, a subsequent list shows
  status \<open>Cancelled\<close> for its identifier. The dentist cancels \<open>far_future\<close>: the
  answer is 200 and the stored status is \<open>Cancelled\<close>, but the appointment starts in
  the year 10000 of UTC, which does not marshal, so the list without filters and the
  list of cancelled appointments both come back with the status 200 and no body.
\<close>

theorem CancelAppointment_then_list_without_body:
  "list_ex (\<lambda>a. ID a = 105) (appointments (DB (clinic_with [checkup, far_future])))
   \<and> fst (CancelAppointment (clinic_with [checkup, far_future]) (as_drew id_far_future []))
       = Response StatusOK (MessageBody ''Appointment cancelled successfully'')
   \<and> appointments (DB (snd (CancelAppointment (clinic_with [checkup, far_future])
                              (as_drew id_far_future []))))
       = [checkup, far_future\<lparr>Status := ''Cancelled''\<rparr>]
   \<and> fst (GetAppointments
            (snd (CancelAppointment (clinic_with [checkup, far_future])
                    (as_drew id_far_future [])))
            (as_drew [] []))
       = Response StatusOK NoBody
   \<and> fst (GetAppointment
            (snd (CancelAppointment (clinic_with [checkup, far_future])
                    (as_drew id_far_future [])))
            (as_drew [] [(''status'', ''Cancelled'')]))
       = Response StatusOK NoBody"
  by code_simp

text \<open>
  Claim C5, amended. Cancel by a dentist or staff caller with a well-formed identifier.
  When no appointment has the identifier the answer is 404 and the collections and the
  dispatched messages are as they were. When one has it the answer is 200, that
  appointment's status is \<open>Cancelled\<close> and nothing else of any appointment or user
  changes (the record stays in the collection); from then on every list either
  handler returns shows status \<open>Cancelled\<close> for the identifier, and the list without
  filters contains it provided the times of every stored appointment can be written as
  JSON (their years in UTC are 0 to 9999). The store is assumed to answer the three
  operations of the call and the two of the list after it.
\<close>

theorem CancelAppointment_not_found_or_cancelled:
  assumes "userRole c = ''dentist'' \<or> userRole c = ''staff''"
      and "ObjectIDFromHex (Param c ''id'') = Some oid"
      and "answers_next 5 (DB h)"
      and "distinct (map ID (appointments (DB h)))"
  shows "(\<not> list_ex (\<lambda>a. ID a = oid) (appointments (DB h)) \<longrightarrow>
            fst (CancelAppointment h c)
              = Response StatusNotFound (ErrorBody ''Appointment not found'')
          \<and> appointments (DB (snd (CancelAppointment h c))) = appointments (DB h)
          \<and> users (DB (snd (CancelAppointment h c))) = users (DB h)
          \<and> dispatched (snd (CancelAppointment h c)) = dispatched h)
       \<and> (list_ex (\<lambda>a. ID a = oid) (appointments (DB h)) \<longrightarrow>
            fst (CancelAppointment h c)
              = Response StatusOK (MessageBody ''Appointment cancelled successfully'')
          \<and> appointments (DB (snd (CancelAppointment h c))) =
              map (\<lambda>a. if ID a = oid then a\<lparr>Status := ''Cancelled''\<rparr> else a)
                (appointments (DB h))
          \<and> users (DB (snd (CancelAppointment h c))) = users (DB h)
          \<and> (\<forall>c2 xs. fst (GetAppointments (snd (CancelAppointment h c)) c2)
                        = Response StatusOK (AppointmentsBody (Some xs))
                \<longrightarrow> (\<forall>a\<in>set xs. ID a = oid \<longrightarrow> Status a = ''Cancelled''))
          \<and> (\<forall>c2 xs. fst (GetAppointment (snd (CancelAppointment h c)) c2)
                        = Response StatusOK (AppointmentsBody (Some xs))
                \<longrightarrow> (\<forall>a\<in>set xs. ID a = oid \<longrightarrow> Status a = ''Cancelled''))
          \<and> (\<forall>c2. query c2 = [] \<and> list_all marshals_UTC (appointments (DB h)) \<longrightarrow>
                (\<exists>xs. fst (GetAppointments (snd (CancelAppointment h c)) c2)
                        = Response StatusOK (AppointmentsBody (Some xs))
                     \<and> (\<exists>a\<in>set xs. ID a = oid \<and> Status a = ''Cancelled''))))"
proof (intro conjI impI)
  assume "\<not> list_ex (\<lambda>a. ID a = oid) (appointments (DB h))"
  then have "find (\<lambda>a. ID a = oid) (appointments (DB h)) = None"
    by (simp add: find_None_list_ex)
  note r = CancelAppointment_missing[OF assms(1,2) this]
  show "fst (CancelAppointment h c)
          = Response StatusNotFound (ErrorBody ''Appointment not found'')"
    by (simp add: r)
  show "appointments (DB (snd (CancelAppointment h c))) = appointments (DB h)"
    by (simp add: r)
  show "users (DB (snd (CancelAppointment h c))) = users (DB h)" by (simp add: r)
  show "dispatched (snd (CancelAppointment h c)) = dispatched h" by (simp add: r)
next
  let ?h' = "snd (CancelAppointment h c)"
  let ?new = "map (\<lambda>a. if ID a = oid then a\<lparr>Status := ''Cancelled''\<rparr> else a)
                (appointments (DB h))"
  assume ex: "list_ex (\<lambda>a. ID a = oid) (appointments (DB h))"
  then obtain apt where f: "find (\<lambda>a. ID a = oid) (appointments (DB h)) = Some apt"
    using find_None_list_ex[of "\<lambda>a. ID a = oid" "appointments (DB h)"]
    by (cases "find (\<lambda>a. ID a = oid) (appointments (DB h))") auto
  have five: "answers_next (Suc (Suc (Suc (Suc (Suc 0))))) (DB h)"
    using assms(3) by (simp add: eval_nat_numeral)
  note r = CancelAppointment_found[OF assms(1,2) f five]
  have upd: "update_first (\<lambda>a. ID a = oid) (apply_set Cancelled) (appointments (DB h)) = ?new"
    by (simp add: update_first_distinct[OF assms(4)] apply_set_Cancelled)
  show "fst (CancelAppointment h c)
          = Response StatusOK (MessageBody ''Appointment cancelled successfully'')"
    using r by simp
  show apts: "appointments (DB ?h') = ?new"
    using r upd by simp
  show "users (DB ?h') = users (DB h)"
    using r by simp
  show "\<forall>c2 xs. fst (GetAppointments ?h' c2) = Response StatusOK (AppointmentsBody (Some xs))
                \<longrightarrow> (\<forall>a\<in>set xs. ID a = oid \<longrightarrow> Status a = ''Cancelled'')"
  proof (intro allI impI ballI)
    fix c2 xs a
    assume "fst (GetAppointments ?h' c2) = Response StatusOK (AppointmentsBody (Some xs))"
      and "a \<in> set xs" and "ID a = oid"
    with GetAppointments_shows[of ?h' c2 xs] apts have "a \<in> set ?new" by auto
    from cancelled_in_map[OF this \<open>ID a = oid\<close>] show "Status a = ''Cancelled''" .
  qed
  show "\<forall>c2 xs. fst (GetAppointment ?h' c2) = Response StatusOK (AppointmentsBody (Some xs))
                \<longrightarrow> (\<forall>a\<in>set xs. ID a = oid \<longrightarrow> Status a = ''Cancelled'')"
  proof (intro allI impI ballI)
    fix c2 xs a
    assume g: "fst (GetAppointment ?h' c2) = Response StatusOK (AppointmentsBody (Some xs))"
      and "a \<in> set xs" and "ID a = oid"
    from GetAppointment_via_find[OF g] obtain start
      where "fst (GetAppointment_find ?h' c2 start)
               = Response StatusOK (AppointmentsBody (Some xs))"
      by blast
    from GetAppointment_find_shows[OF this] \<open>a \<in> set xs\<close> apts have "a \<in> set ?new" by auto
    from cancelled_in_map[OF this \<open>ID a = oid\<close>] show "Status a = ''Cancelled''" .
  qed
  show "\<forall>c2. query c2 = [] \<and> list_all marshals_UTC (appointments (DB h)) \<longrightarrow>
                (\<exists>xs. fst (GetAppointments ?h' c2)
                        = Response StatusOK (AppointmentsBody (Some xs))
                     \<and> (\<exists>a\<in>set xs. ID a = oid \<and> Status a = ''Cancelled''))"
  proof (intro allI impI)
    fix c2 :: Context
    assume both: "query c2 = [] \<and> list_all marshals_UTC (appointments (DB h))"
    then have q: "query c2 = []" and old_ok: "list_all marshals_UTC (appointments (DB h))"
      by simp_all
    have new_ok: "list_all marshals_UTC ?new"
      using old_ok by (simp only: marshals_UTC_map_Status)
    from f have m: "apt \<in> set (appointments (DB h))" and i: "ID apt = oid"
      by (auto simp add: find_Some_iff)
    then have in_new: "apt\<lparr>Status := ''Cancelled''\<rparr> \<in> set ?new"
      by (simp add: image_iff) (rule bexI[of _ apt], simp_all)
    then have ne: "appointments (DB ?h') \<noteq> []" using apts by auto
    have "answers_next (Suc (Suc 0))
            (issue (FindOne ''users'') (issue (UpdateOne ''appointments'')
              (issue (FindOne ''appointments'') (DB h))))"
      by (rule answers_next_three(4)[OF five])
    then have two: "answers_next (Suc (Suc 0)) (DB ?h')"
      using r by (simp only: answers_next_appointments_update)
    have ok': "list_all marshals_UTC (appointments (DB ?h'))"
      using new_ok apts by simp
    from GetAppointments_unfiltered[OF q two ne ok']
    have "fst (GetAppointments ?h' c2)
            = Response StatusOK (AppointmentsBody (Some (sort_key StartTime ?new)))"
      using apts by simp
    moreover have "\<exists>a\<in>set (sort_key StartTime ?new). ID a = oid \<and> Status a = ''Cancelled''"
      using in_new i by (intro bexI[of _ "apt\<lparr>Status := ''Cancelled''\<rparr>"]) simp_all
    ultimately show "\<exists>xs. fst (GetAppointments ?h' c2)
                        = Response StatusOK (AppointmentsBody (Some xs))
                     \<and> (\<exists>a\<in>set xs. ID a = oid \<and> Status a = ''Cancelled'')"
      by blast
  qed
qed

theorem CancelAppointment_not_found_or_cancelled_witness:
  "(userRole (as_drew id_checkup []) = ''dentist'' \<or> userRole (as_drew id_checkup []) = ''staff'')
   \<and> ObjectIDFromHex (Param (as_drew id_checkup []) ''id'') = Some 101
   \<and> ObjectIDFromHex (Param (as_drew id_unknown []) ''id'') = Some 999
   \<and> answers_next 5 (DB clinic)
   \<and> distinct (map ID (appointments (DB clinic)))
   \<and> list_ex (\<lambda>a. ID a = 101) (appointments (DB clinic))
   \<and> list_all marshals_UTC (appointments (DB clinic))
   \<and> fst (CancelAppointment clinic (as_drew id_checkup []))
       = Response StatusOK (MessageBody ''Appointment cancelled successfully'')
   \<and> appointments (DB (snd (CancelAppointment clinic (as_drew id_checkup []))))
       = [checkup\<lparr>Status := ''Cancelled''\<rparr>, cleaning]
   \<and> (\<exists>xs. fst (GetAppointments (snd (CancelAppointment clinic (as_drew id_checkup [])))
                  (as_drew [] []))
              = Response StatusOK (AppointmentsBody (Some xs))
           \<and> (\<exists>a\<in>set xs. ID a = 101 \<and> Status a = ''Cancelled''))
   \<and> \<not> list_ex (\<lambda>a. ID a = 999) (appointments (DB clinic))
   \<and> fst (CancelAppointment clinic (as_drew id_unknown []))
       = Response StatusNotFound (ErrorBody ''Appointment not found'')
   \<and> appointments (DB (snd (CancelAppointment clinic (as_drew id_unknown []))))
       = appointments (DB clinic)"
proof -
  have h1: "userRole (as_drew id_checkup []) = ''dentist''
      \<or> userRole (as_drew id_checkup []) = ''staff''" by code_simp
  have h1': "userRole (as_drew id_unknown []) = ''dentist''
      \<or> userRole (as_drew id_unknown []) = ''staff''" by code_simp
  have h2: "ObjectIDFromHex (Param (as_drew id_checkup []) ''id'') = Some 101" by code_simp
  have h2': "ObjectIDFromHex (Param (as_drew id_unknown []) ''id'') = Some 999" by code_simp
  have h3: "answers_next 5 (DB clinic)" by code_simp
  have h4: "distinct (map ID (appointments (DB clinic)))" by code_simp
  have ex: "list_ex (\<lambda>a. ID a = 101) (appointments (DB clinic))" by code_simp
  have nex: "\<not> list_ex (\<lambda>a. ID a = 999) (appointments (DB clinic))" by code_simp
  have q: "query (as_drew [] []) = []" by code_simp
  have ok: "list_all marshals_UTC (appointments (DB clinic))" by code_simp
  have e: "map (\<lambda>a. if ID a = 101 then a\<lparr>Status := ''Cancelled''\<rparr> else a)
             (appointments (DB clinic)) = [checkup\<lparr>Status := ''Cancelled''\<rparr>, cleaning]"
    by code_simp
  note found = CancelAppointment_not_found_or_cancelled[OF h1 h2 h3 h4]
  note missing = CancelAppointment_not_found_or_cancelled[OF h1' h2' h3 h4]
  from found ex
  have c1: "fst (CancelAppointment clinic (as_drew id_checkup []))
       = Response StatusOK (MessageBody ''Appointment cancelled successfully'')"
    by blast
  from found ex
  have "appointments (DB (snd (CancelAppointment clinic (as_drew id_checkup [])))) =
          map (\<lambda>a. if ID a = 101 then a\<lparr>Status := ''Cancelled''\<rparr> else a)
            (appointments (DB clinic))"
    by blast
  then have c2: "appointments (DB (snd (CancelAppointment clinic (as_drew id_checkup []))))
       = [checkup\<lparr>Status := ''Cancelled''\<rparr>, cleaning]"
    by (simp only: e)
  from found ex
  have "\<forall>c2. query c2 = [] \<and> list_all marshals_UTC (appointments (DB clinic)) \<longrightarrow>
          (\<exists>xs. fst (GetAppointments (snd (CancelAppointment clinic (as_drew id_checkup []))) c2)
                  = Response StatusOK (AppointmentsBody (Some xs))
               \<and> (\<exists>a\<in>set xs. ID a = 101 \<and> Status a = ''Cancelled''))"
    by blast
  with q ok
  have c3: "\<exists>xs. fst (GetAppointments (snd (CancelAppointment clinic (as_drew id_checkup [])))
                  (as_drew [] []))
              = Response StatusOK (AppointmentsBody (Some xs))
           \<and> (\<exists>a\<in>set xs. ID a = 101 \<and> Status a = ''Cancelled'')"
    by blast
  from missing nex
  have c4: "fst (CancelAppointment clinic (as_drew id_unknown []))
       = Response StatusNotFound (ErrorBody ''Appointment not found'')"
    by blast
  from missing nex
  have c5: "appointments (DB (snd (CancelAppointment clinic (as_drew id_unknown []))))
       = appointments (DB clinic)"
    by blast
  from h1 h2 h2' h3 h4 ex ok c1 c2 c3 nex c4 c5 show ?thesis by blast
qed

section \<open>Registration and login\<close>

text \<open>
  Claim C7. Login with the email of an account and a wrong password, and Login with
  an email no account has, are answered alike: 401 \<open>Invalid credentials\<close> both times,
  never 404, and the handler's state after the two runs is the same as well.
\<close>

theorem Login_failures_agree:
  assumes "find (\<lambda>u. Email u = e1) (users (DB h)) = Some u"
      and "\<not> CheckPasswordHash env p1 (Password u)"
      and "find (\<lambda>u. Email u = e2) (users (DB h)) = None"
  shows "fst (Login env h (Some \<lparr>login_Email = e1, login_Password = p1\<rparr>))
           = Response StatusUnauthorized (ErrorBody ''Invalid credentials'')
       \<and> Login env h (Some \<lparr>login_Email = e2, login_Password = p2\<rparr>)
           = Login env h (Some \<lparr>login_Email = e1, login_Password = p1\<rparr>)"
  using assms by (simp add: Login_def users_FindOne_email_def)

theorem Login_failures_agree_witness:
  "find (\<lambda>u. Email u = ''alice@example.com'') (users (DB clinic)) = Some alice
   \<and> \<not> CheckPasswordHash test_env ''letmein'' (Password alice)
   \<and> find (\<lambda>u. Email u = ''nobody@example.com'') (users (DB clinic)) = None
   \<and> fst (Login test_env clinic
            (Some \<lparr>login_Email = ''alice@example.com'', login_Password = ''letmein''\<rparr>))
       = Response StatusUnauthorized (ErrorBody ''Invalid credentials'')
   \<and> Login test_env clinic
        (Some \<lparr>login_Email = ''nobody@example.com'', login_Password = ''wonderland''\<rparr>)
       = Login test_env clinic
           (Some \<lparr>login_Email = ''alice@example.com'', login_Password = ''letmein''\<rparr>)"
proof -
  have h1: "find (\<lambda>u. Email u = ''alice@example.com'') (users (DB clinic)) = Some alice"
    by code_simp
  have h2: "\<not> CheckPasswordHash test_env ''letmein'' (Password alice)" by code_simp
  have h3: "find (\<lambda>u. Email u = ''nobody@example.com'') (users (DB clinic)) = None"
    by code_simp
  from Login_failures_agree[OF h1 h2 h3, of "''wonderland''"] h1 h2 h3
  show ?thesis by blast
qed

text \<open>
  Claim C9. Register stores the role string of the request as it is whenever it is not
  empty, \<open>dentist\<close> and \<open>staff\<close> included, and \<open>client\<close> only when it is empty:
  the role has no binding tag and is compared with nothing. For a request that passes
  the binding rules, a password that hashes and an insert the store accepts, the
  answer is 201 with the user, and the user is appended to the collection.
\<close>

theorem RegisterUser_keeps_supplied_role:
  assumes "binding_ok env req"
      and "HashPassword env (reg_Password req) = Some hashedPassword"
      and "answered (DB h)"
      and "\<not> list_ex (\<lambda>v. User_ID v = newID) (users (DB h))"
      and "\<not> (email_unique (DB h) \<and> list_ex (\<lambda>v. Email v = reg_Email req) (users (DB h)))"
  shows "RegisterUser env h newID (Some req) =
           (let user = \<lparr>User_ID = newID, FullName = reg_FullName req, Email = reg_Email req,
                         Password = hashedPassword,
                         Role = (if reg_Role req = [] then ''client'' else reg_Role req),
                         Phone = reg_Phone req\<rparr>
            in (Response StatusCreated (UserBody (json_User user)),
                h\<lparr>DB := issue (InsertOne ''users'')
                            ((DB h)\<lparr>users := users (DB h) @ [user]\<rparr>)\<rparr>))"
  using assms by (simp add: RegisterUser_def users_InsertOne_def Let_def)

theorem RegisterUser_keeps_supplied_role_witness:
  "binding_ok test_env mallory
   \<and> HashPassword test_env (reg_Password mallory) = Some ''bcrypt:longenough1''
   \<and> answered (DB clinic)
   \<and> \<not> list_ex (\<lambda>v. User_ID v = 4) (users (DB clinic))
   \<and> \<not> (email_unique (DB clinic)
          \<and> list_ex (\<lambda>v. Email v = reg_Email mallory) (users (DB clinic)))
   \<and> reg_Role mallory = ''dentist''
   \<and> code (fst (RegisterUser test_env clinic 4 (Some mallory))) = StatusCreated
   \<and> map Role (users (DB (snd (RegisterUser test_env clinic 4 (Some mallory)))))
       = [''client'', ''client'', ''dentist'', ''dentist'']"
proof -
  have h1: "binding_ok test_env mallory" by code_simp
  have h2: "HashPassword test_env (reg_Password mallory) = Some ''bcrypt:longenough1''"
    by code_simp
  have h3: "answered (DB clinic)" by code_simp
  have h4: "\<not> list_ex (\<lambda>v. User_ID v = 4) (users (DB clinic))" by code_simp
  have h5: "\<not> (email_unique (DB clinic)
          \<and> list_ex (\<lambda>v. Email v = reg_Email mallory) (users (DB clinic)))" by code_simp
  have r: "reg_Role mallory = ''dentist''" by code_simp
  have u: "map Role (users (DB clinic)) = [''client'', ''client'', ''dentist'']" by code_simp
  note run = RegisterUser_keeps_supplied_role[OF h1 h2 h3 h4 h5]
  have c1: "code (fst (RegisterUser test_env clinic 4 (Some mallory))) = StatusCreated"
    by (simp add: run Let_def)
  have c2: "map Role (users (DB (snd (RegisterUser test_env clinic 4 (Some mallory)))))
       = [''client'', ''client'', ''dentist'', ''dentist'']"
    by (simp add: run Let_def r u)
  from h1 h2 h3 h4 h5 r c1 c2 show ?thesis by blast
qed

end
